theory Spec2Isabelle
  imports Main "HOL-Library.Word"
begin

section \<open>Domain model\<close>

text \<open>
  The Go package declares its wire types as plain structs. Named string types
  (\<open>Network\<close>, \<open>Chain\<close>, \<open>UUID\<close>, \<open>ChainhookStatus\<close>, \<open>EventType\<close>) are strings
  here as well, and their constants are the string constants of the source. A pointer
  field that may be nil is an \<open>option\<close>; \<open>uint64\<close> is a 64-bit word.
\<close>

type_synonym Network = string
type_synonym Chain = string
type_synonym UUID = string
type_synonym ChainhookStatus = string
type_synonym EventType = string
type_synonym uint64 = "64 word"
type_synonym int64 = "64 word"

definition NetworkMainnet :: Network where "NetworkMainnet = ''mainnet''"
definition NetworkTestnet :: Network where "NetworkTestnet = ''testnet''"
definition ChainStacks :: Chain where "ChainStacks = ''stacks''"

definition ChainhookStatusNew :: ChainhookStatus where "ChainhookStatusNew = ''new''"
definition ChainhookStatusStreaming :: ChainhookStatus where "ChainhookStatusStreaming = ''streaming''"
definition ChainhookStatusExpired :: ChainhookStatus where "ChainhookStatusExpired = ''expired''"
definition ChainhookStatusInterrupted :: ChainhookStatus where "ChainhookStatusInterrupted = ''interrupted''"

record Principal =
  Standard :: "string option"
  Contract :: "string option"

subsection \<open>Event types and event filters\<close>

definition EventTypeFTEvent :: EventType where "EventTypeFTEvent = ''ft_event''"
definition EventTypeFTMint :: EventType where "EventTypeFTMint = ''ft_mint''"
definition EventTypeFTBurn :: EventType where "EventTypeFTBurn = ''ft_burn''"
definition EventTypeFTTransfer :: EventType where "EventTypeFTTransfer = ''ft_transfer''"
definition EventTypeNFTEvent :: EventType where "EventTypeNFTEvent = ''nft_event''"
definition EventTypeNFTMint :: EventType where "EventTypeNFTMint = ''nft_mint''"
definition EventTypeNFTBurn :: EventType where "EventTypeNFTBurn = ''nft_burn''"
definition EventTypeNFTTransfer :: EventType where "EventTypeNFTTransfer = ''nft_transfer''"
definition EventTypeSTXEvent :: EventType where "EventTypeSTXEvent = ''stx_event''"
definition EventTypeSTXMint :: EventType where "EventTypeSTXMint = ''stx_mint''"
definition EventTypeSTXBurn :: EventType where "EventTypeSTXBurn = ''stx_burn''"
definition EventTypeSTXTransfer :: EventType where "EventTypeSTXTransfer = ''stx_transfer''"
definition EventTypeContractDeploy :: EventType where "EventTypeContractDeploy = ''contract_deploy''"
definition EventTypeContractCall :: EventType where "EventTypeContractCall = ''contract_call''"
definition EventTypeContractLog :: EventType where "EventTypeContractLog = ''contract_log''"
definition EventTypeBalanceChange :: EventType where "EventTypeBalanceChange = ''balance_change''"
definition EventTypeCoinbase :: EventType where "EventTypeCoinbase = ''coinbase''"
definition EventTypeTenureChange :: EventType where "EventTypeTenureChange = ''tenure_change''"

text \<open>The constants of the \<open>EventType\<close> const block, in the order of the source.\<close>

definition event_type_constants :: "EventType list" where
  "event_type_constants =
     [EventTypeFTEvent, EventTypeFTMint, EventTypeFTBurn, EventTypeFTTransfer,
      EventTypeNFTEvent, EventTypeNFTMint, EventTypeNFTBurn, EventTypeNFTTransfer,
      EventTypeSTXEvent, EventTypeSTXMint, EventTypeSTXBurn, EventTypeSTXTransfer,
      EventTypeContractDeploy, EventTypeContractCall, EventTypeContractLog,
      EventTypeBalanceChange, EventTypeCoinbase, EventTypeTenureChange]"

text \<open>
  \<open>EventFilter\<close> is the interface implemented by the filter structs; each struct is one
  constructor, with its fields in the order of the struct declaration. The first field
  of every struct is its \<open>Type\<close> tag, an \<open>EventType\<close> the caller is free to set.
\<close>

datatype EventFilter =
    FTEventFilter EventType string string "Principal option" "Principal option" "string option"
  | FTMintFilter EventType string "Principal option" "string option"
  | FTBurnFilter EventType string "Principal option" "string option"
  | FTTransferFilter EventType string "Principal option" "Principal option" "string option"
  | NFTEventFilter EventType string string "Principal option" "Principal option"
  | NFTMintFilter EventType string "Principal option"
  | NFTBurnFilter EventType string "Principal option"
  | NFTTransferFilter EventType string "Principal option" "Principal option"
  | STXEventFilter EventType string "Principal option" "Principal option" "string option"
  | STXMintFilter EventType "Principal option" "string option"
  | STXBurnFilter EventType "Principal option" "string option"
  | STXTransferFilter EventType "Principal option" "Principal option" "string option"
  | ContractDeployFilter EventType "Principal option"
  | ContractCallFilter EventType "string option" "string option" "Principal option"
  | ContractLogFilter EventType "string option"
  | BalanceChangeFilter EventType "Principal option"
  | CoinbaseFilter EventType "Principal option"
  | TenureChangeFilter EventType

text \<open>The \<open>Type\<close> field of a filter value.\<close>

fun filter_Type :: "EventFilter \<Rightarrow> EventType" where
  "filter_Type (FTEventFilter t _ _ _ _ _) = t"
| "filter_Type (FTMintFilter t _ _ _) = t"
| "filter_Type (FTBurnFilter t _ _ _) = t"
| "filter_Type (FTTransferFilter t _ _ _ _) = t"
| "filter_Type (NFTEventFilter t _ _ _ _) = t"
| "filter_Type (NFTMintFilter t _ _) = t"
| "filter_Type (NFTBurnFilter t _ _) = t"
| "filter_Type (NFTTransferFilter t _ _ _) = t"
| "filter_Type (STXEventFilter t _ _ _ _) = t"
| "filter_Type (STXMintFilter t _ _) = t"
| "filter_Type (STXBurnFilter t _ _) = t"
| "filter_Type (STXTransferFilter t _ _ _) = t"
| "filter_Type (ContractDeployFilter t _) = t"
| "filter_Type (ContractCallFilter t _ _ _) = t"
| "filter_Type (ContractLogFilter t _) = t"
| "filter_Type (BalanceChangeFilter t _) = t"
| "filter_Type (CoinbaseFilter t _) = t"
| "filter_Type (TenureChangeFilter t) = t"

text \<open>
  The event-type constant that belongs to a filter struct: \<open>FTMintFilter\<close> is the filter
  of \<open>EventTypeFTMint\<close>, and so on through the declarations.
\<close>

fun variant_EventType :: "EventFilter \<Rightarrow> EventType" where
  "variant_EventType (FTEventFilter _ _ _ _ _ _) = EventTypeFTEvent"
| "variant_EventType (FTMintFilter _ _ _ _) = EventTypeFTMint"
| "variant_EventType (FTBurnFilter _ _ _ _) = EventTypeFTBurn"
| "variant_EventType (FTTransferFilter _ _ _ _ _) = EventTypeFTTransfer"
| "variant_EventType (NFTEventFilter _ _ _ _ _) = EventTypeNFTEvent"
| "variant_EventType (NFTMintFilter _ _ _) = EventTypeNFTMint"
| "variant_EventType (NFTBurnFilter _ _ _) = EventTypeNFTBurn"
| "variant_EventType (NFTTransferFilter _ _ _ _) = EventTypeNFTTransfer"
| "variant_EventType (STXEventFilter _ _ _ _ _) = EventTypeSTXEvent"
| "variant_EventType (STXMintFilter _ _ _) = EventTypeSTXMint"
| "variant_EventType (STXBurnFilter _ _ _) = EventTypeSTXBurn"
| "variant_EventType (STXTransferFilter _ _ _ _) = EventTypeSTXTransfer"
| "variant_EventType (ContractDeployFilter _ _) = EventTypeContractDeploy"
| "variant_EventType (ContractCallFilter _ _ _ _) = EventTypeContractCall"
| "variant_EventType (ContractLogFilter _ _) = EventTypeContractLog"
| "variant_EventType (BalanceChangeFilter _ _) = EventTypeBalanceChange"
| "variant_EventType (CoinbaseFilter _ _) = EventTypeCoinbase"
| "variant_EventType (TenureChangeFilter _) = EventTypeTenureChange"

subsection \<open>Definitions, options, actions\<close>

record ChainhookOptions =
  EnableOnRegistration :: "bool option"
  ExpireAfterEvaluations :: "uint64 option"
  ExpireAfterOccurrences :: "uint64 option"
  DecodeClarityValues :: "bool option"
  IncludeContractABI :: "bool option"
  IncludeContractSourceCode :: "bool option"
  IncludePostConditions :: "bool option"
  IncludeRawTransactions :: "bool option"
  IncludeBlockSignatures :: "bool option"
  IncludeBlockMetadata :: "bool option"

text \<open>The struct literal \<open>ChainhookOptions{}\<close>: every pointer nil.\<close>

definition ChainhookOptions_zero :: ChainhookOptions where
  "ChainhookOptions_zero =
     \<lparr>EnableOnRegistration = None, ExpireAfterEvaluations = None,
      ExpireAfterOccurrences = None, DecodeClarityValues = None,
      IncludeContractABI = None, IncludeContractSourceCode = None,
      IncludePostConditions = None, IncludeRawTransactions = None,
      IncludeBlockSignatures = None, IncludeBlockMetadata = None\<rparr>"

record ChainhookFilters =
  Events :: "EventFilter list"

record ChainhookAction =
  action_Type :: string
  action_URL :: string

record ChainhookDefinition =
  Name :: string
  Version :: string
  Chain :: Chain
  Network :: Network
  Filters :: ChainhookFilters
  Options :: "ChainhookOptions option"
  Action :: ChainhookAction

definition DefaultAPIVersion :: string where "DefaultAPIVersion = ''1''"
definition DefaultChain :: Chain where "DefaultChain = ChainStacks"

section \<open>Errors\<close>

text \<open>
  The three error structs of the package, and the errors \<open>fmt.Errorf\<close> wraps around a
  failure of the standard library (a prefix and the cause's text). \<open>HttpError\<close> carries
  \<open>StatusCode\<close>, \<open>URL\<close>, \<open>Method\<close>, \<open>Headers\<close>, \<open>Body\<close>, \<open>RawBody\<close> and \<open>Err\<close>, in that order.
\<close>

type_synonym Header = "(string \<times> string list) list"

datatype go_error =
    HttpError int string string Header string string "go_error option"
  | ValidationError string string
  | ConfigError string
  | Errorf string string

section \<open>The definition builder\<close>

text \<open>
  \<open>ChainhookBuilder\<close> holds a pointer to the definition under construction, the filter
  list and the error slot. \<open>NewChainhookBuilder\<close> allocates the definition and no method
  reassigns the pointer, so the record holds the definition itself.
\<close>

record ChainhookBuilder =
  builder_definition :: ChainhookDefinition
  filters :: "EventFilter list"
  err :: "go_error option"

definition NewChainhookBuilder :: "string \<Rightarrow> Network \<Rightarrow> ChainhookBuilder" where
  "NewChainhookBuilder name network =
     \<lparr>builder_definition =
        \<lparr>Name = name, Version = DefaultAPIVersion, Chain = DefaultChain, Network = network,
         Filters = \<lparr>Events = []\<rparr>, Options = None,
         Action = \<lparr>action_Type = [], action_URL = []\<rparr>\<rparr>,
      filters = [],
      err = None\<rparr>"

definition WithName :: "string \<Rightarrow> ChainhookBuilder \<Rightarrow> ChainhookBuilder" where
  "WithName name b =
     (if err b \<noteq> None then b
      else b\<lparr>builder_definition := (builder_definition b)\<lparr>Name := name\<rparr>\<rparr>)"

definition WithNetwork :: "Network \<Rightarrow> ChainhookBuilder \<Rightarrow> ChainhookBuilder" where
  "WithNetwork network b =
     (if err b \<noteq> None then b
      else b\<lparr>builder_definition := (builder_definition b)\<lparr>Network := network\<rparr>\<rparr>)"

definition WithWebhookURL :: "string \<Rightarrow> ChainhookBuilder \<Rightarrow> ChainhookBuilder" where
  "WithWebhookURL url b =
     (if err b \<noteq> None then b
      else b\<lparr>builder_definition :=
             (builder_definition b)\<lparr>Action := \<lparr>action_Type = ''http_post'', action_URL = url\<rparr>\<rparr>\<rparr>)"

definition AddFilter :: "EventFilter \<Rightarrow> ChainhookBuilder \<Rightarrow> ChainhookBuilder" where
  "AddFilter f b =
     (if err b \<noteq> None then b
      else b\<lparr>filters := filters b @ [f]\<rparr>)"

text \<open>
  The convenience methods: each builds one filter struct, with the \<open>Type\<close> field set to
  a constant, and hands it to \<open>AddFilter\<close>.
\<close>

definition AddFTTransfer :: "string \<Rightarrow> Principal option \<Rightarrow> Principal option \<Rightarrow> string option \<Rightarrow> ChainhookBuilder \<Rightarrow> ChainhookBuilder" where
  "AddFTTransfer asset sender receiver amount b =
     AddFilter (FTTransferFilter EventTypeFTTransfer asset sender receiver amount) b"

definition AddFTMint :: "string \<Rightarrow> Principal option \<Rightarrow> string option \<Rightarrow> ChainhookBuilder \<Rightarrow> ChainhookBuilder" where
  "AddFTMint asset recipient amount b =
     AddFilter (FTMintFilter EventTypeFTMint asset recipient amount) b"

definition AddFTBurn :: "string \<Rightarrow> Principal option \<Rightarrow> string option \<Rightarrow> ChainhookBuilder \<Rightarrow> ChainhookBuilder" where
  "AddFTBurn asset sender amount b =
     AddFilter (FTBurnFilter EventTypeFTBurn asset sender amount) b"

definition AddNFTTransfer :: "string \<Rightarrow> Principal option \<Rightarrow> Principal option \<Rightarrow> ChainhookBuilder \<Rightarrow> ChainhookBuilder" where
  "AddNFTTransfer asset sender receiver b =
     AddFilter (NFTTransferFilter EventTypeNFTTransfer asset sender receiver) b"

definition AddNFTMint :: "string \<Rightarrow> Principal option \<Rightarrow> ChainhookBuilder \<Rightarrow> ChainhookBuilder" where
  "AddNFTMint asset recipient b =
     AddFilter (NFTMintFilter EventTypeNFTMint asset recipient) b"

definition AddNFTBurn :: "string \<Rightarrow> Principal option \<Rightarrow> ChainhookBuilder \<Rightarrow> ChainhookBuilder" where
  "AddNFTBurn asset sender b =
     AddFilter (NFTBurnFilter EventTypeNFTBurn asset sender) b"

definition AddSTXTransfer :: "Principal option \<Rightarrow> Principal option \<Rightarrow> string option \<Rightarrow> ChainhookBuilder \<Rightarrow> ChainhookBuilder" where
  "AddSTXTransfer sender receiver amount b =
     AddFilter (STXTransferFilter EventTypeSTXTransfer sender receiver amount) b"

definition AddSTXMint :: "Principal option \<Rightarrow> string option \<Rightarrow> ChainhookBuilder \<Rightarrow> ChainhookBuilder" where
  "AddSTXMint recipient amount b =
     AddFilter (STXMintFilter EventTypeSTXMint recipient amount) b"

definition AddSTXBurn :: "Principal option \<Rightarrow> string option \<Rightarrow> ChainhookBuilder \<Rightarrow> ChainhookBuilder" where
  "AddSTXBurn sender amount b =
     AddFilter (STXBurnFilter EventTypeSTXBurn sender amount) b"

definition AddContractDeploy :: "Principal option \<Rightarrow> ChainhookBuilder \<Rightarrow> ChainhookBuilder" where
  "AddContractDeploy deployerPrincipal b =
     AddFilter (ContractDeployFilter EventTypeContractDeploy deployerPrincipal) b"

definition AddContractCall :: "string option \<Rightarrow> string option \<Rightarrow> Principal option \<Rightarrow> ChainhookBuilder \<Rightarrow> ChainhookBuilder" where
  "AddContractCall contractID method sender b =
     AddFilter (ContractCallFilter EventTypeContractCall contractID method sender) b"

definition AddContractLog :: "string option \<Rightarrow> ChainhookBuilder \<Rightarrow> ChainhookBuilder" where
  "AddContractLog contractID b =
     AddFilter (ContractLogFilter EventTypeContractLog contractID) b"

definition AddBalanceChange :: "Principal option \<Rightarrow> ChainhookBuilder \<Rightarrow> ChainhookBuilder" where
  "AddBalanceChange p b =
     AddFilter (BalanceChangeFilter EventTypeBalanceChange p) b"

definition AddCoinbase :: "Principal option \<Rightarrow> ChainhookBuilder \<Rightarrow> ChainhookBuilder" where
  "AddCoinbase recipient b =
     AddFilter (CoinbaseFilter EventTypeCoinbase recipient) b"

definition AddTenureChange :: "ChainhookBuilder \<Rightarrow> ChainhookBuilder" where
  "AddTenureChange b =
     AddFilter (TenureChangeFilter EventTypeTenureChange) b"

definition WithOptions :: "ChainhookOptions option \<Rightarrow> ChainhookBuilder \<Rightarrow> ChainhookBuilder" where
  "WithOptions opts b =
     (if err b \<noteq> None then b
      else b\<lparr>builder_definition := (builder_definition b)\<lparr>Options := opts\<rparr>\<rparr>)"

text \<open>
  The option setters allocate the options struct when the pointer is nil, then assign
  one field of it.
\<close>

definition WithEnableOnRegistration :: "bool \<Rightarrow> ChainhookBuilder \<Rightarrow> ChainhookBuilder" where
  "WithEnableOnRegistration enable b =
     (if err b \<noteq> None then b
      else
        let opts = (case Options (builder_definition b) of
                      None \<Rightarrow> ChainhookOptions_zero
                    | Some p \<Rightarrow> p)
        in b\<lparr>builder_definition :=
               (builder_definition b)\<lparr>Options := Some (opts\<lparr>EnableOnRegistration := Some enable\<rparr>)\<rparr>\<rparr>)"

definition WithExpireAfterEvaluations :: "uint64 \<Rightarrow> ChainhookBuilder \<Rightarrow> ChainhookBuilder" where
  "WithExpireAfterEvaluations count b =
     (if err b \<noteq> None then b
      else
        let opts = (case Options (builder_definition b) of
                      None \<Rightarrow> ChainhookOptions_zero
                    | Some p \<Rightarrow> p)
        in b\<lparr>builder_definition :=
               (builder_definition b)\<lparr>Options := Some (opts\<lparr>ExpireAfterEvaluations := Some count\<rparr>)\<rparr>\<rparr>)"

definition WithExpireAfterOccurrences :: "uint64 \<Rightarrow> ChainhookBuilder \<Rightarrow> ChainhookBuilder" where
  "WithExpireAfterOccurrences count b =
     (if err b \<noteq> None then b
      else
        let opts = (case Options (builder_definition b) of
                      None \<Rightarrow> ChainhookOptions_zero
                    | Some p \<Rightarrow> p)
        in b\<lparr>builder_definition :=
               (builder_definition b)\<lparr>Options := Some (opts\<lparr>ExpireAfterOccurrences := Some count\<rparr>)\<rparr>\<rparr>)"

definition WithDecodeClarityValues :: "bool \<Rightarrow> ChainhookBuilder \<Rightarrow> ChainhookBuilder" where
  "WithDecodeClarityValues decode b =
     (if err b \<noteq> None then b
      else
        let opts = (case Options (builder_definition b) of
                      None \<Rightarrow> ChainhookOptions_zero
                    | Some p \<Rightarrow> p)
        in b\<lparr>builder_definition :=
               (builder_definition b)\<lparr>Options := Some (opts\<lparr>DecodeClarityValues := Some decode\<rparr>)\<rparr>\<rparr>)"

definition WithIncludeContractABI :: "bool \<Rightarrow> ChainhookBuilder \<Rightarrow> ChainhookBuilder" where
  "WithIncludeContractABI include b =
     (if err b \<noteq> None then b
      else
        let opts = (case Options (builder_definition b) of
                      None \<Rightarrow> ChainhookOptions_zero
                    | Some p \<Rightarrow> p)
        in b\<lparr>builder_definition :=
               (builder_definition b)\<lparr>Options := Some (opts\<lparr>IncludeContractABI := Some include\<rparr>)\<rparr>\<rparr>)"

definition WithIncludeContractSourceCode :: "bool \<Rightarrow> ChainhookBuilder \<Rightarrow> ChainhookBuilder" where
  "WithIncludeContractSourceCode include b =
     (if err b \<noteq> None then b
      else
        let opts = (case Options (builder_definition b) of
                      None \<Rightarrow> ChainhookOptions_zero
                    | Some p \<Rightarrow> p)
        in b\<lparr>builder_definition :=
               (builder_definition b)\<lparr>Options := Some (opts\<lparr>IncludeContractSourceCode := Some include\<rparr>)\<rparr>\<rparr>)"

definition WithIncludePostConditions :: "bool \<Rightarrow> ChainhookBuilder \<Rightarrow> ChainhookBuilder" where
  "WithIncludePostConditions include b =
     (if err b \<noteq> None then b
      else
        let opts = (case Options (builder_definition b) of
                      None \<Rightarrow> ChainhookOptions_zero
                    | Some p \<Rightarrow> p)
        in b\<lparr>builder_definition :=
               (builder_definition b)\<lparr>Options := Some (opts\<lparr>IncludePostConditions := Some include\<rparr>)\<rparr>\<rparr>)"

definition WithIncludeRawTransactions :: "bool \<Rightarrow> ChainhookBuilder \<Rightarrow> ChainhookBuilder" where
  "WithIncludeRawTransactions include b =
     (if err b \<noteq> None then b
      else
        let opts = (case Options (builder_definition b) of
                      None \<Rightarrow> ChainhookOptions_zero
                    | Some p \<Rightarrow> p)
        in b\<lparr>builder_definition :=
               (builder_definition b)\<lparr>Options := Some (opts\<lparr>IncludeRawTransactions := Some include\<rparr>)\<rparr>\<rparr>)"

definition WithIncludeBlockSignatures :: "bool \<Rightarrow> ChainhookBuilder \<Rightarrow> ChainhookBuilder" where
  "WithIncludeBlockSignatures include b =
     (if err b \<noteq> None then b
      else
        let opts = (case Options (builder_definition b) of
                      None \<Rightarrow> ChainhookOptions_zero
                    | Some p \<Rightarrow> p)
        in b\<lparr>builder_definition :=
               (builder_definition b)\<lparr>Options := Some (opts\<lparr>IncludeBlockSignatures := Some include\<rparr>)\<rparr>\<rparr>)"

definition WithIncludeBlockMetadata :: "bool \<Rightarrow> ChainhookBuilder \<Rightarrow> ChainhookBuilder" where
  "WithIncludeBlockMetadata include b =
     (if err b \<noteq> None then b
      else
        let opts = (case Options (builder_definition b) of
                      None \<Rightarrow> ChainhookOptions_zero
                    | Some p \<Rightarrow> p)
        in b\<lparr>builder_definition :=
               (builder_definition b)\<lparr>Options := Some (opts\<lparr>IncludeBlockMetadata := Some include\<rparr>)\<rparr>\<rparr>)"

text \<open>
  \<open>Build\<close> returns the stored error if there is one, then checks the name, the action
  URL and the filter list in this order; on success it stores the filters in the
  definition and returns it. The second component is the builder after the call.
\<close>

definition Build :: "ChainhookBuilder \<Rightarrow> (go_error + ChainhookDefinition) \<times> ChainhookBuilder" where
  "Build b =
     (case err b of
        Some e \<Rightarrow> (Inl e, b)
      | None \<Rightarrow>
          if Name (builder_definition b) = [] then
            (Inl (ValidationError ''name'' ''name is required''), b)
          else if action_URL (Action (builder_definition b)) = [] then
            (Inl (ValidationError ''action.url'' ''webhook URL is required''), b)
          else if length (filters b) = 0 then
            (Inl (ValidationError ''filters'' ''at least one filter is required''), b)
          else
            let b' = b\<lparr>builder_definition :=
                        (builder_definition b)\<lparr>Filters := \<lparr>Events = filters b\<rparr>\<rparr>\<rparr>
            in (Inr (builder_definition b'), b'))"

subsection \<open>Chains of fluent calls\<close>

text \<open>
  One constructor for each convenience method, with the method's arguments, and the
  dispatch to the method.
\<close>

datatype addX_call =
    CallAddFTTransfer string "Principal option" "Principal option" "string option"
  | CallAddFTMint string "Principal option" "string option"
  | CallAddFTBurn string "Principal option" "string option"
  | CallAddNFTTransfer string "Principal option" "Principal option"
  | CallAddNFTMint string "Principal option"
  | CallAddNFTBurn string "Principal option"
  | CallAddSTXTransfer "Principal option" "Principal option" "string option"
  | CallAddSTXMint "Principal option" "string option"
  | CallAddSTXBurn "Principal option" "string option"
  | CallAddContractDeploy "Principal option"
  | CallAddContractCall "string option" "string option" "Principal option"
  | CallAddContractLog "string option"
  | CallAddBalanceChange "Principal option"
  | CallAddCoinbase "Principal option"
  | CallAddTenureChange

fun run_addX :: "addX_call \<Rightarrow> ChainhookBuilder \<Rightarrow> ChainhookBuilder" where
  "run_addX (CallAddFTTransfer asset sender receiver amount) b = AddFTTransfer asset sender receiver amount b"
| "run_addX (CallAddFTMint asset recipient amount) b = AddFTMint asset recipient amount b"
| "run_addX (CallAddFTBurn asset sender amount) b = AddFTBurn asset sender amount b"
| "run_addX (CallAddNFTTransfer asset sender receiver) b = AddNFTTransfer asset sender receiver b"
| "run_addX (CallAddNFTMint asset recipient) b = AddNFTMint asset recipient b"
| "run_addX (CallAddNFTBurn asset sender) b = AddNFTBurn asset sender b"
| "run_addX (CallAddSTXTransfer sender receiver amount) b = AddSTXTransfer sender receiver amount b"
| "run_addX (CallAddSTXMint recipient amount) b = AddSTXMint recipient amount b"
| "run_addX (CallAddSTXBurn sender amount) b = AddSTXBurn sender amount b"
| "run_addX (CallAddContractDeploy deployerPrincipal) b = AddContractDeploy deployerPrincipal b"
| "run_addX (CallAddContractCall contractID method sender) b = AddContractCall contractID method sender b"
| "run_addX (CallAddContractLog contractID) b = AddContractLog contractID b"
| "run_addX (CallAddBalanceChange p) b = AddBalanceChange p b"
| "run_addX (CallAddCoinbase recipient) b = AddCoinbase recipient b"
| "run_addX CallAddTenureChange b = AddTenureChange b"

text \<open>Every fluent method of the builder, as one call.\<close>

datatype builder_call =
    CallWithName string
  | CallWithNetwork Network
  | CallWithWebhookURL string
  | CallAddFilter EventFilter
  | CallAddX addX_call
  | CallWithOptions "ChainhookOptions option"
  | CallWithEnableOnRegistration bool
  | CallWithExpireAfterEvaluations uint64
  | CallWithExpireAfterOccurrences uint64
  | CallWithDecodeClarityValues bool
  | CallWithIncludeContractABI bool
  | CallWithIncludeContractSourceCode bool
  | CallWithIncludePostConditions bool
  | CallWithIncludeRawTransactions bool
  | CallWithIncludeBlockSignatures bool
  | CallWithIncludeBlockMetadata bool

fun run_call :: "builder_call \<Rightarrow> ChainhookBuilder \<Rightarrow> ChainhookBuilder" where
  "run_call (CallWithName name) b = WithName name b"
| "run_call (CallWithNetwork network) b = WithNetwork network b"
| "run_call (CallWithWebhookURL url) b = WithWebhookURL url b"
| "run_call (CallAddFilter f) b = AddFilter f b"
| "run_call (CallAddX c) b = run_addX c b"
| "run_call (CallWithOptions opts) b = WithOptions opts b"
| "run_call (CallWithEnableOnRegistration v) b = WithEnableOnRegistration v b"
| "run_call (CallWithExpireAfterEvaluations v) b = WithExpireAfterEvaluations v b"
| "run_call (CallWithExpireAfterOccurrences v) b = WithExpireAfterOccurrences v b"
| "run_call (CallWithDecodeClarityValues v) b = WithDecodeClarityValues v b"
| "run_call (CallWithIncludeContractABI v) b = WithIncludeContractABI v b"
| "run_call (CallWithIncludeContractSourceCode v) b = WithIncludeContractSourceCode v b"
| "run_call (CallWithIncludePostConditions v) b = WithIncludePostConditions v b"
| "run_call (CallWithIncludeRawTransactions v) b = WithIncludeRawTransactions v b"
| "run_call (CallWithIncludeBlockSignatures v) b = WithIncludeBlockSignatures v b"
| "run_call (CallWithIncludeBlockMetadata v) b = WithIncludeBlockMetadata v b"

text \<open>A chain \<open>b.m1(..).m2(..)...\<close>: the calls of the list, applied from left to right.\<close>

fun run_calls :: "builder_call list \<Rightarrow> ChainhookBuilder \<Rightarrow> ChainhookBuilder" where
  "run_calls [] b = b"
| "run_calls (c # cs) b = run_calls cs (run_call c b)"

text \<open>
  Every operation of the builder: a fluent call, or \<open>Build\<close>, whose result the caller
  may drop and which leaves the builder as the second component of \<open>Build\<close> says. A
  sequence of operations is applied from left to right.
\<close>

datatype builder_op =
    OpCall builder_call
  | OpBuild

fun run_op :: "builder_op \<Rightarrow> ChainhookBuilder \<Rightarrow> ChainhookBuilder" where
  "run_op (OpCall c) b = run_call c b"
| "run_op OpBuild b = snd (Build b)"

fun run_ops :: "builder_op list \<Rightarrow> ChainhookBuilder \<Rightarrow> ChainhookBuilder" where
  "run_ops [] b = b"
| "run_ops (p # ps) b = run_ops ps (run_op p b)"

section \<open>The options builder\<close>

definition NewChainhookOptions :: ChainhookOptions where
  "NewChainhookOptions = ChainhookOptions_zero"

record ChainhookOptionsBuilder =
  opts :: ChainhookOptions

definition NewChainhookOptionsBuilder :: ChainhookOptionsBuilder where
  "NewChainhookOptionsBuilder = \<lparr>opts = ChainhookOptions_zero\<rparr>"

text \<open>
  The setters of \<open>ChainhookOptionsBuilder\<close> carry the names of the fields they assign;
  here they are prefixed with \<open>OptionsBuilder\<close>.
\<close>

definition OptionsBuilder_EnableOnRegistration :: "bool \<Rightarrow> ChainhookOptionsBuilder \<Rightarrow> ChainhookOptionsBuilder" where
  "OptionsBuilder_EnableOnRegistration enable b = b\<lparr>opts := (opts b)\<lparr>EnableOnRegistration := Some enable\<rparr>\<rparr>"

definition OptionsBuilder_ExpireAfterEvaluations :: "uint64 \<Rightarrow> ChainhookOptionsBuilder \<Rightarrow> ChainhookOptionsBuilder" where
  "OptionsBuilder_ExpireAfterEvaluations count b = b\<lparr>opts := (opts b)\<lparr>ExpireAfterEvaluations := Some count\<rparr>\<rparr>"

definition OptionsBuilder_ExpireAfterOccurrences :: "uint64 \<Rightarrow> ChainhookOptionsBuilder \<Rightarrow> ChainhookOptionsBuilder" where
  "OptionsBuilder_ExpireAfterOccurrences count b = b\<lparr>opts := (opts b)\<lparr>ExpireAfterOccurrences := Some count\<rparr>\<rparr>"

definition OptionsBuilder_DecodeClarityValues :: "bool \<Rightarrow> ChainhookOptionsBuilder \<Rightarrow> ChainhookOptionsBuilder" where
  "OptionsBuilder_DecodeClarityValues decode b = b\<lparr>opts := (opts b)\<lparr>DecodeClarityValues := Some decode\<rparr>\<rparr>"

definition OptionsBuilder_IncludeContractABI :: "bool \<Rightarrow> ChainhookOptionsBuilder \<Rightarrow> ChainhookOptionsBuilder" where
  "OptionsBuilder_IncludeContractABI include b = b\<lparr>opts := (opts b)\<lparr>IncludeContractABI := Some include\<rparr>\<rparr>"

definition OptionsBuilder_IncludeContractSourceCode :: "bool \<Rightarrow> ChainhookOptionsBuilder \<Rightarrow> ChainhookOptionsBuilder" where
  "OptionsBuilder_IncludeContractSourceCode include b = b\<lparr>opts := (opts b)\<lparr>IncludeContractSourceCode := Some include\<rparr>\<rparr>"

definition OptionsBuilder_IncludePostConditions :: "bool \<Rightarrow> ChainhookOptionsBuilder \<Rightarrow> ChainhookOptionsBuilder" where
  "OptionsBuilder_IncludePostConditions include b = b\<lparr>opts := (opts b)\<lparr>IncludePostConditions := Some include\<rparr>\<rparr>"

definition OptionsBuilder_IncludeRawTransactions :: "bool \<Rightarrow> ChainhookOptionsBuilder \<Rightarrow> ChainhookOptionsBuilder" where
  "OptionsBuilder_IncludeRawTransactions include b = b\<lparr>opts := (opts b)\<lparr>IncludeRawTransactions := Some include\<rparr>\<rparr>"

definition OptionsBuilder_IncludeBlockSignatures :: "bool \<Rightarrow> ChainhookOptionsBuilder \<Rightarrow> ChainhookOptionsBuilder" where
  "OptionsBuilder_IncludeBlockSignatures include b = b\<lparr>opts := (opts b)\<lparr>IncludeBlockSignatures := Some include\<rparr>\<rparr>"

definition OptionsBuilder_IncludeBlockMetadata :: "bool \<Rightarrow> ChainhookOptionsBuilder \<Rightarrow> ChainhookOptionsBuilder" where
  "OptionsBuilder_IncludeBlockMetadata include b = b\<lparr>opts := (opts b)\<lparr>IncludeBlockMetadata := Some include\<rparr>\<rparr>"

definition OptionsBuilder_Build :: "ChainhookOptionsBuilder \<Rightarrow> ChainhookOptions" where
  "OptionsBuilder_Build b = opts b"

datatype options_call =
    SetEnableOnRegistration bool
  | SetExpireAfterEvaluations uint64
  | SetExpireAfterOccurrences uint64
  | SetDecodeClarityValues bool
  | SetIncludeContractABI bool
  | SetIncludeContractSourceCode bool
  | SetIncludePostConditions bool
  | SetIncludeRawTransactions bool
  | SetIncludeBlockSignatures bool
  | SetIncludeBlockMetadata bool

fun run_options_call :: "options_call \<Rightarrow> ChainhookOptionsBuilder \<Rightarrow> ChainhookOptionsBuilder" where
  "run_options_call (SetEnableOnRegistration v) b = OptionsBuilder_EnableOnRegistration v b"
| "run_options_call (SetExpireAfterEvaluations v) b = OptionsBuilder_ExpireAfterEvaluations v b"
| "run_options_call (SetExpireAfterOccurrences v) b = OptionsBuilder_ExpireAfterOccurrences v b"
| "run_options_call (SetDecodeClarityValues v) b = OptionsBuilder_DecodeClarityValues v b"
| "run_options_call (SetIncludeContractABI v) b = OptionsBuilder_IncludeContractABI v b"
| "run_options_call (SetIncludeContractSourceCode v) b = OptionsBuilder_IncludeContractSourceCode v b"
| "run_options_call (SetIncludePostConditions v) b = OptionsBuilder_IncludePostConditions v b"
| "run_options_call (SetIncludeRawTransactions v) b = OptionsBuilder_IncludeRawTransactions v b"
| "run_options_call (SetIncludeBlockSignatures v) b = OptionsBuilder_IncludeBlockSignatures v b"
| "run_options_call (SetIncludeBlockMetadata v) b = OptionsBuilder_IncludeBlockMetadata v b"

fun run_options_calls :: "options_call list \<Rightarrow> ChainhookOptionsBuilder \<Rightarrow> ChainhookOptionsBuilder" where
  "run_options_calls [] b = b"
| "run_options_calls (c # cs) b = run_options_calls cs (run_options_call c b)"

text \<open>
  What a sequence of setter calls asks for, read off the calls alone: the argument of
  the last call of a setter, or nothing when that setter is not called. The first
  argument says which setter: it gives the argument of a call of that setter and
  nothing for a call of another.
\<close>

fun last_argument :: "(options_call \<Rightarrow> 'a option) \<Rightarrow> options_call list \<Rightarrow> 'a option" where
  "last_argument arg [] = None"
| "last_argument arg (c # cs) =
     (case last_argument arg cs of Some v \<Rightarrow> Some v | None \<Rightarrow> arg c)"

fun arg_EnableOnRegistration :: "options_call \<Rightarrow> bool option" where
  "arg_EnableOnRegistration (SetEnableOnRegistration v) = Some v"
| "arg_EnableOnRegistration _ = None"

fun arg_ExpireAfterEvaluations :: "options_call \<Rightarrow> uint64 option" where
  "arg_ExpireAfterEvaluations (SetExpireAfterEvaluations v) = Some v"
| "arg_ExpireAfterEvaluations _ = None"

fun arg_ExpireAfterOccurrences :: "options_call \<Rightarrow> uint64 option" where
  "arg_ExpireAfterOccurrences (SetExpireAfterOccurrences v) = Some v"
| "arg_ExpireAfterOccurrences _ = None"

fun arg_DecodeClarityValues :: "options_call \<Rightarrow> bool option" where
  "arg_DecodeClarityValues (SetDecodeClarityValues v) = Some v"
| "arg_DecodeClarityValues _ = None"

fun arg_IncludeContractABI :: "options_call \<Rightarrow> bool option" where
  "arg_IncludeContractABI (SetIncludeContractABI v) = Some v"
| "arg_IncludeContractABI _ = None"

fun arg_IncludeContractSourceCode :: "options_call \<Rightarrow> bool option" where
  "arg_IncludeContractSourceCode (SetIncludeContractSourceCode v) = Some v"
| "arg_IncludeContractSourceCode _ = None"

fun arg_IncludePostConditions :: "options_call \<Rightarrow> bool option" where
  "arg_IncludePostConditions (SetIncludePostConditions v) = Some v"
| "arg_IncludePostConditions _ = None"

fun arg_IncludeRawTransactions :: "options_call \<Rightarrow> bool option" where
  "arg_IncludeRawTransactions (SetIncludeRawTransactions v) = Some v"
| "arg_IncludeRawTransactions _ = None"

fun arg_IncludeBlockSignatures :: "options_call \<Rightarrow> bool option" where
  "arg_IncludeBlockSignatures (SetIncludeBlockSignatures v) = Some v"
| "arg_IncludeBlockSignatures _ = None"

fun arg_IncludeBlockMetadata :: "options_call \<Rightarrow> bool option" where
  "arg_IncludeBlockMetadata (SetIncludeBlockMetadata v) = Some v"
| "arg_IncludeBlockMetadata _ = None"

section \<open>JSON form of the options\<close>

text \<open>
  \<open>encoding/json\<close> belongs to the Go standard library. Its work on \<open>ChainhookOptions\<close> is
  fixed by the struct tags of the source: every field is a pointer tagged
  \<open>omitempty\<close>, so a nil pointer leaves the key out and any other pointer writes the
  value it points to, \<open>false\<close> and \<open>0\<close> included. The model works on JSON values
  rather than on their text; a number is an integer here.
\<close>

datatype json =
    JNull
  | JBool bool
  | JNumber int
  | JString string
  | JArray "json list"
  | JObject "(string \<times> json) list"

definition omitempty_field :: "string \<Rightarrow> json option \<Rightarrow> (string \<times> json) list" where
  "omitempty_field key v = (case v of None \<Rightarrow> [] | Some j \<Rightarrow> [(key, j)])"

definition json_of_uint64 :: "uint64 \<Rightarrow> json" where
  "json_of_uint64 w = JNumber (uint w)"

definition Marshal_ChainhookOptions_fields :: "ChainhookOptions \<Rightarrow> (string \<times> json) list" where
  "Marshal_ChainhookOptions_fields p =
     omitempty_field ''enable_on_registration'' (map_option JBool (EnableOnRegistration p)) @
     omitempty_field ''expire_after_evaluations'' (map_option json_of_uint64 (ExpireAfterEvaluations p)) @
     omitempty_field ''expire_after_occurrences'' (map_option json_of_uint64 (ExpireAfterOccurrences p)) @
     omitempty_field ''decode_clarity_values'' (map_option JBool (DecodeClarityValues p)) @
     omitempty_field ''include_contract_abi'' (map_option JBool (IncludeContractABI p)) @
     omitempty_field ''include_contract_source_code'' (map_option JBool (IncludeContractSourceCode p)) @
     omitempty_field ''include_post_conditions'' (map_option JBool (IncludePostConditions p)) @
     omitempty_field ''include_raw_transactions'' (map_option JBool (IncludeRawTransactions p)) @
     omitempty_field ''include_block_signatures'' (map_option JBool (IncludeBlockSignatures p)) @
     omitempty_field ''include_block_metadata'' (map_option JBool (IncludeBlockMetadata p))"

definition Marshal_ChainhookOptions :: "ChainhookOptions \<Rightarrow> json" where
  "Marshal_ChainhookOptions p = JObject (Marshal_ChainhookOptions_fields p)"

text \<open>
  Decoding into a pointer field: \<open>null\<close> makes the pointer nil, a value of the field's
  type is stored behind a fresh pointer, anything else is a type error. A number fits
  \<open>uint64\<close> when it is in range.
\<close>

fun decode_bool_ptr :: "json \<Rightarrow> string + bool option" where
  "decode_bool_ptr JNull = Inr None"
| "decode_bool_ptr (JBool v) = Inr (Some v)"
| "decode_bool_ptr _ = Inl ''json: cannot unmarshal into Go value of type bool''"

fun decode_uint64_ptr :: "json \<Rightarrow> string + uint64 option" where
  "decode_uint64_ptr JNull = Inr None"
| "decode_uint64_ptr (JNumber n) =
     (if 0 \<le> n \<and> n < 2 ^ 64 then Inr (Some (word_of_int n))
      else Inl ''json: cannot unmarshal number into Go value of type uint64'')"
| "decode_uint64_ptr _ = Inl ''json: cannot unmarshal into Go value of type uint64''"

text \<open>
  One key of the object: the field with that tag is assigned, an unknown key is skipped.
  (The library also accepts a key that differs from the tag in letter case; the encoder
  never writes one.)
\<close>

definition decode_options_field :: "string \<Rightarrow> json \<Rightarrow> ChainhookOptions \<Rightarrow> string + ChainhookOptions" where
  "decode_options_field key v p =
     (if key = ''enable_on_registration'' then
        map_sum id (\<lambda>x. p\<lparr>EnableOnRegistration := x\<rparr>) (decode_bool_ptr v)
      else if key = ''expire_after_evaluations'' then
        map_sum id (\<lambda>x. p\<lparr>ExpireAfterEvaluations := x\<rparr>) (decode_uint64_ptr v)
      else if key = ''expire_after_occurrences'' then
        map_sum id (\<lambda>x. p\<lparr>ExpireAfterOccurrences := x\<rparr>) (decode_uint64_ptr v)
      else if key = ''decode_clarity_values'' then
        map_sum id (\<lambda>x. p\<lparr>DecodeClarityValues := x\<rparr>) (decode_bool_ptr v)
      else if key = ''include_contract_abi'' then
        map_sum id (\<lambda>x. p\<lparr>IncludeContractABI := x\<rparr>) (decode_bool_ptr v)
      else if key = ''include_contract_source_code'' then
        map_sum id (\<lambda>x. p\<lparr>IncludeContractSourceCode := x\<rparr>) (decode_bool_ptr v)
      else if key = ''include_post_conditions'' then
        map_sum id (\<lambda>x. p\<lparr>IncludePostConditions := x\<rparr>) (decode_bool_ptr v)
      else if key = ''include_raw_transactions'' then
        map_sum id (\<lambda>x. p\<lparr>IncludeRawTransactions := x\<rparr>) (decode_bool_ptr v)
      else if key = ''include_block_signatures'' then
        map_sum id (\<lambda>x. p\<lparr>IncludeBlockSignatures := x\<rparr>) (decode_bool_ptr v)
      else if key = ''include_block_metadata'' then
        map_sum id (\<lambda>x. p\<lparr>IncludeBlockMetadata := x\<rparr>) (decode_bool_ptr v)
      else Inr p)"

fun decode_options_fields :: "(string \<times> json) list \<Rightarrow> ChainhookOptions \<Rightarrow> string + ChainhookOptions" where
  "decode_options_fields [] p = Inr p"
| "decode_options_fields ((key, v) # kvs) p =
     (case decode_options_field key v p of
        Inl e \<Rightarrow> Inl e
      | Inr p' \<Rightarrow> decode_options_fields kvs p')"

text \<open>
  \<open>json.Unmarshal\<close> into a \<open>ChainhookOptions\<close> that holds \<open>p\<close>: \<open>null\<close> changes nothing,
  an object assigns its keys from left to right, any other value is a type error.
\<close>

fun Unmarshal_ChainhookOptions :: "json \<Rightarrow> ChainhookOptions \<Rightarrow> string + ChainhookOptions" where
  "Unmarshal_ChainhookOptions JNull p = Inr p"
| "Unmarshal_ChainhookOptions (JObject kvs) p = decode_options_fields kvs p"
| "Unmarshal_ChainhookOptions _ p =
     Inl ''json: cannot unmarshal into Go value of type chainhooks.ChainhookOptions''"

text \<open>The keys of a JSON object.\<close>

fun object_keys :: "json \<Rightarrow> string list" where
  "object_keys (JObject kvs) = map fst kvs"
| "object_keys _ = []"

fun object_lookup :: "json \<Rightarrow> string \<Rightarrow> json option" where
  "object_lookup (JObject kvs) key = map_of kvs key"
| "object_lookup _ key = None"

section \<open>Responses, pagination, bulk requests\<close>

record ChainhookStatusInfo =
  Status :: ChainhookStatus
  status_Enabled :: bool
  CreatedAt :: int64
  LastEvaluatedAt :: "int64 option"
  LastEvaluatedBlockHeight :: "uint64 option"
  LastOccurrenceAt :: "int64 option"
  LastOccurrenceBlockHeight :: "uint64 option"
  EvaluatedBlockCount :: uint64
  OccurrenceCount :: uint64

record Chainhook =
  chainhook_UUID :: UUID
  chainhook_Definition :: "ChainhookDefinition option"
  chainhook_Status :: ChainhookStatusInfo

record PaginationOptions =
  Offset :: uint64
  Limit :: uint64

record PaginatedChainhookResponse =
  Total :: uint64
  page_Offset :: uint64
  page_Limit :: uint64
  Chainhooks :: "Chainhook list"

record BulkEnableChainhooksRequest =
  Enabled :: bool
  UUIDs :: "UUID list"
  WebhookURL :: "string option"
  Statuses :: "ChainhookStatus list"

record BulkEnableChainhooksResponse =
  UpdatedCount :: uint64

record ConsumerSecretResponse =
  Secret :: string

record EvaluateChainhookRequest =
  BlockHeight :: uint64

record ApiStatusResponse =
  api_Status :: string
  api_Version :: string

text \<open>The zero values that \<open>var result T\<close> declares.\<close>

definition Chainhook_zero :: Chainhook where
  "Chainhook_zero =
     \<lparr>chainhook_UUID = [], chainhook_Definition = None,
      chainhook_Status =
        \<lparr>Status = [], status_Enabled = False, CreatedAt = 0, LastEvaluatedAt = None,
         LastEvaluatedBlockHeight = None, LastOccurrenceAt = None,
         LastOccurrenceBlockHeight = None, EvaluatedBlockCount = 0, OccurrenceCount = 0\<rparr>\<rparr>"

definition PaginatedChainhookResponse_zero :: PaginatedChainhookResponse where
  "PaginatedChainhookResponse_zero =
     \<lparr>Total = 0, page_Offset = 0, page_Limit = 0, Chainhooks = []\<rparr>"

definition BulkEnableChainhooksResponse_zero :: BulkEnableChainhooksResponse where
  "BulkEnableChainhooksResponse_zero = \<lparr>UpdatedCount = 0\<rparr>"

definition ConsumerSecretResponse_zero :: ConsumerSecretResponse where
  "ConsumerSecretResponse_zero = \<lparr>Secret = []\<rparr>"

definition ApiStatusResponse_zero :: ApiStatusResponse where
  "ApiStatusResponse_zero = \<lparr>api_Status = [], api_Version = []\<rparr>"

definition NewPaginationOptions :: "uint64 \<Rightarrow> uint64 \<Rightarrow> PaginationOptions" where
  "NewPaginationOptions offset limit = \<lparr>Offset = offset, Limit = limit\<rparr>"

definition BulkEnableUUIDs :: "bool \<Rightarrow> UUID list \<Rightarrow> BulkEnableChainhooksRequest" where
  "BulkEnableUUIDs enabled uuids =
     \<lparr>Enabled = enabled, UUIDs = uuids, WebhookURL = None, Statuses = []\<rparr>"

definition BulkEnableByWebhook :: "bool \<Rightarrow> string \<Rightarrow> BulkEnableChainhooksRequest" where
  "BulkEnableByWebhook enabled webhookURL =
     \<lparr>Enabled = enabled, UUIDs = [], WebhookURL = Some webhookURL, Statuses = []\<rparr>"

definition BulkEnableByStatus :: "bool \<Rightarrow> ChainhookStatus list \<Rightarrow> BulkEnableChainhooksRequest" where
  "BulkEnableByStatus enabled statuses =
     \<lparr>Enabled = enabled, UUIDs = [], WebhookURL = None, Statuses = statuses\<rparr>"

section \<open>Error helpers\<close>

text \<open>
  The helpers take an \<open>error\<close> interface value, which may be nil. The type assertion
  \<open>err.(*HttpError)\<close> succeeds on an \<open>HttpError\<close> only; it does not unwrap.
\<close>

definition IsHttpError :: "go_error option \<Rightarrow> bool" where
  "IsHttpError e = (case e of Some (HttpError _ _ _ _ _ _ _) \<Rightarrow> True | _ \<Rightarrow> False)"

definition AsHttpError :: "go_error option \<Rightarrow> go_error option \<times> bool" where
  "AsHttpError e = (case e of Some (HttpError c u m h b r x) \<Rightarrow> (e, True) | _ \<Rightarrow> (None, False))"

definition GetHttpStatusCode :: "go_error option \<Rightarrow> int \<times> bool" where
  "GetHttpStatusCode e =
     (case AsHttpError e of
        (Some (HttpError c u m h b r x), True) \<Rightarrow> (c, True)
      | _ \<Rightarrow> (0, False))"

definition IsNotFound :: "go_error option \<Rightarrow> bool" where
  "IsNotFound e = (case GetHttpStatusCode e of (statusCode, ok) \<Rightarrow> ok \<and> statusCode = 404)"

definition IsUnauthorized :: "go_error option \<Rightarrow> bool" where
  "IsUnauthorized e = (case GetHttpStatusCode e of (statusCode, ok) \<Rightarrow> ok \<and> statusCode = 401)"

definition IsForbidden :: "go_error option \<Rightarrow> bool" where
  "IsForbidden e = (case GetHttpStatusCode e of (statusCode, ok) \<Rightarrow> ok \<and> statusCode = 403)"

definition IsServerError :: "go_error option \<Rightarrow> bool" where
  "IsServerError e = (case GetHttpStatusCode e of (statusCode, ok) \<Rightarrow> ok \<and> statusCode \<ge> 500)"

definition IsClientError :: "go_error option \<Rightarrow> bool" where
  "IsClientError e =
     (case GetHttpStatusCode e of (statusCode, ok) \<Rightarrow> ok \<and> statusCode \<ge> 400 \<and> statusCode < 500)"

text \<open>The fields of an \<open>HttpError\<close> that the claims read.\<close>

fun error_Body :: "go_error \<Rightarrow> string" where
  "error_Body (HttpError c u m h b r x) = b"
| "error_Body _ = []"

section \<open>Query strings\<close>

text \<open>
  \<open>fmt.Sprintf("%d", n)\<close> on a \<open>uint64\<close> prints the decimal digits of \<open>n\<close>.
\<close>

fun FormatUint :: "nat \<Rightarrow> string" where
  "FormatUint n =
     (if n < 10 then [''0123456789'' ! n]
      else FormatUint (n div 10) @ [''0123456789'' ! (n mod 10)])"

declare FormatUint.simps [simp del]

text \<open>
  \<open>url.Values\<close> is a map from a key to its values, here the list of its entries with
  one entry for a key. \<open>Set\<close> replaces the values of a key. \<open>QueryEscape\<close> keeps letters,
  digits and \<open>-_.~\<close>, writes a space as \<open>+\<close> and any other byte as \<open>%XX\<close>. \<open>Encode\<close> walks
  the keys in sorted order and joins \<open>key=value\<close> with \<open>&\<close>. These are functions of
  \<open>net/url\<close> in the Go standard library.
\<close>

type_synonym Values = "(string \<times> string list) list"

fun Values_Set :: "Values \<Rightarrow> string \<Rightarrow> string \<Rightarrow> Values" where
  "Values_Set [] key v = [(key, [v])]"
| "Values_Set ((k, vs) # m) key v =
     (if k = key then (k, [v]) # m else (k, vs) # Values_Set m key v)"

fun Values_Get :: "Values \<Rightarrow> string \<Rightarrow> string list" where
  "Values_Get [] key = []"
| "Values_Get ((k, vs) # m) key = (if k = key then vs else Values_Get m key)"

definition shouldEscape :: "char \<Rightarrow> bool" where
  "shouldEscape c =
     (let n = (of_char c :: nat) in
      if (97 \<le> n \<and> n \<le> 122) \<or> (65 \<le> n \<and> n \<le> 90) \<or> (48 \<le> n \<and> n \<le> 57) then False
      else if c \<in> set ''-_.~'' then False
      else True)"

definition escape_byte :: "char \<Rightarrow> string" where
  "escape_byte c =
     (if shouldEscape c then
        (if c = CHR '' '' then ''+''
         else [CHR ''%'', ''0123456789ABCDEF'' ! ((of_char c :: nat) div 16),
               ''0123456789ABCDEF'' ! ((of_char c :: nat) mod 16)])
      else [c])"

definition QueryEscape :: "string \<Rightarrow> string" where
  "QueryEscape s = concat (map escape_byte s)"

text \<open>Go compares strings byte by byte.\<close>

fun string_le :: "string \<Rightarrow> string \<Rightarrow> bool" where
  "string_le [] t = True"
| "string_le (c # s) [] = False"
| "string_le (c # s) (d # t) =
     (if (of_char c :: nat) < of_char d then True
      else if (of_char d :: nat) < of_char c then False
      else string_le s t)"

fun insert_sorted :: "string \<Rightarrow> string list \<Rightarrow> string list" where
  "insert_sorted k [] = [k]"
| "insert_sorted k (x # xs) = (if string_le k x then k # x # xs else x # insert_sorted k xs)"

fun sorted_keys :: "string list \<Rightarrow> string list" where
  "sorted_keys [] = []"
| "sorted_keys (k # ks) = insert_sorted k (sorted_keys ks)"

fun encode_values :: "string \<Rightarrow> string list \<Rightarrow> string \<Rightarrow> string" where
  "encode_values keyEscaped [] buf = buf"
| "encode_values keyEscaped (v # vs) buf =
     encode_values keyEscaped vs
       ((if length buf > 0 then buf @ ''&'' else buf) @ keyEscaped @ ''='' @ QueryEscape v)"

fun encode_keys :: "Values \<Rightarrow> string list \<Rightarrow> string \<Rightarrow> string" where
  "encode_keys m [] buf = buf"
| "encode_keys m (k # ks) buf =
     encode_keys m ks (encode_values (QueryEscape k) (Values_Get m k) buf)"

definition Values_Encode :: "Values \<Rightarrow> string" where
  "Values_Encode m =
     (if length m = 0 then [] else encode_keys m (sorted_keys (map fst m)) [])"

section \<open>The transport client\<close>

subsection \<open>Constants\<close>

text \<open>\<open>ChainhooksBaseURLs\<close> is a map; a key it does not hold reads as the empty string.\<close>

definition ChainhooksBaseURLs :: "Network \<Rightarrow> string" where
  "ChainhooksBaseURLs n =
     (if n = NetworkMainnet then ''https://api.mainnet.hiro.so''
      else if n = NetworkTestnet then ''https://api.testnet.hiro.so''
      else [])"

definition MethodGET :: string where "MethodGET = ''GET''"
definition MethodPOST :: string where "MethodPOST = ''POST''"
definition MethodPATCH :: string where "MethodPATCH = ''PATCH''"
definition MethodDELETE :: string where "MethodDELETE = ''DELETE''"

text \<open>
  The endpoints with a \<open>%s\<close> are format strings; each is used in one way only,
  \<open>fmt.Sprintf(Endpoint, uuid)\<close>, and is written here as the function of the uuid.
\<close>

definition EndpointChainhooks :: string where "EndpointChainhooks = ''/chainhooks/me''"
definition EndpointChainhook :: "UUID \<Rightarrow> string" where
  "EndpointChainhook uuid = ''/chainhooks/me/'' @ uuid"

definition EndpointChainhookEnabled :: "UUID \<Rightarrow> string" where
  "EndpointChainhookEnabled uuid = ''/chainhooks/me/'' @ uuid @ ''/enabled''"

definition EndpointBulkEnabled :: string where "EndpointBulkEnabled = ''/chainhooks/me/enabled''"
definition EndpointEvaluate :: "UUID \<Rightarrow> string" where
  "EndpointEvaluate uuid = ''/chainhooks/me/'' @ uuid @ ''/evaluate''"

definition EndpointConsumerSecret :: string where "EndpointConsumerSecret = ''/chainhooks/me/secret''"
definition EndpointStatus :: string where "EndpointStatus = ''/chainhooks''"

definition HeaderAccept :: string where "HeaderAccept = ''Accept''"
definition HeaderContentType :: string where "HeaderContentType = ''Content-Type''"
definition HeaderAuthorization :: string where "HeaderAuthorization = ''Authorization''"
definition HeaderAPIKey :: string where "HeaderAPIKey = ''x-api-key''"
definition ContentTypeJSON :: string where "ContentTypeJSON = ''application/json''"

subsection \<open>Construction\<close>

text \<open>
  \<open>time.Duration\<close> counts nanoseconds. Of \<open>http.Client\<close> the package touches the
  \<open>Timeout\<close> field only. The \<open>headers\<close> map of the client is the list of its entries.
\<close>

definition Second :: int where "Second = 1000000000"

record HTTPClient =
  client_Timeout :: int

record ClientConfig =
  BaseURL :: string
  APIKey :: "string option"
  JWT :: "string option"
  HTTPClient :: "HTTPClient option"
  Timeout :: int
  UserAgent :: string

record Client =
  baseURL :: string
  apiKey :: "string option"
  jwt :: "string option"
  httpClient :: HTTPClient
  userAgent :: string
  timeout :: int
  headers :: "(string \<times> string) list"

definition ClientConfig_zero :: ClientConfig where
  "ClientConfig_zero =
     \<lparr>BaseURL = [], APIKey = None, JWT = None, HTTPClient = None, Timeout = 0, UserAgent = []\<rparr>"

definition HasSuffix :: "string \<Rightarrow> string \<Rightarrow> bool" where
  "HasSuffix s suffix =
     (length s \<ge> length suffix \<and> drop (length s - length suffix) s = suffix)"

definition TrimSuffix :: "string \<Rightarrow> string \<Rightarrow> string" where
  "TrimSuffix s suffix =
     (if HasSuffix s suffix then take (length s - length suffix) s else s)"

fun map_set :: "(string \<times> string) list \<Rightarrow> string \<Rightarrow> string \<Rightarrow> (string \<times> string) list" where
  "map_set [] key v = [(key, v)]"
| "map_set ((k, w) # m) key v = (if k = key then (k, v) # m else (k, w) # map_set m key v)"

definition NewClientWithConfig :: "ClientConfig option \<Rightarrow> Client" where
  "NewClientWithConfig cfg0 =
     (let cfg1 = (case cfg0 of None \<Rightarrow> ClientConfig_zero | Some c \<Rightarrow> c);
          cfg2 = (if BaseURL cfg1 = [] then cfg1\<lparr>BaseURL := ChainhooksBaseURLs NetworkMainnet\<rparr>
                  else cfg1);
          hc0 = (case HTTPClient cfg2 of
                   None \<Rightarrow> \<lparr>client_Timeout = 30 * Second\<rparr>
                 | Some h \<Rightarrow> h);
          hc = (if Timeout cfg2 > 0 then hc0\<lparr>client_Timeout := Timeout cfg2\<rparr> else hc0);
          cfg3 = cfg2\<lparr>HTTPClient := Some hc\<rparr>;
          cfg4 = (if UserAgent cfg3 = [] then cfg3\<lparr>UserAgent := ''chainhooks-client-go/1.0.0''\<rparr>
                  else cfg3);
          cfg = cfg4\<lparr>BaseURL := TrimSuffix (BaseURL cfg4) ''/''\<rparr>;
          client = \<lparr>baseURL = BaseURL cfg, apiKey = APIKey cfg, jwt = JWT cfg,
                    httpClient = hc, userAgent = UserAgent cfg, timeout = Timeout cfg,
                    headers = []\<rparr>
      in client\<lparr>headers :=
                  map_set (map_set (headers client) HeaderAccept ContentTypeJSON)
                    HeaderContentType ContentTypeJSON\<rparr>)"

definition NewClient :: "string \<Rightarrow> Client" where
  "NewClient url = NewClientWithConfig (Some (ClientConfig_zero\<lparr>BaseURL := url\<rparr>))"

definition SetAPIKey :: "string \<Rightarrow> Client \<Rightarrow> Client" where
  "SetAPIKey k c = c\<lparr>apiKey := Some k\<rparr>"

definition SetJWT :: "string \<Rightarrow> Client \<Rightarrow> Client" where
  "SetJWT t c = c\<lparr>jwt := Some t\<rparr>"

definition SetHeader :: "string \<Rightarrow> string \<Rightarrow> Client \<Rightarrow> Client" where
  "SetHeader key v c = c\<lparr>headers := map_set (headers c) key v\<rparr>"

subsection \<open>The round trip\<close>

text \<open>
  What \<open>request\<close> hands to \<open>httpClient.Do\<close>, and what it gets back. \<open>io.ReadAll\<close> on
  the body of a response returns the bytes read and possibly an error.
\<close>

record http_request =
  req_Method :: string
  req_URL :: string
  req_Header :: "(string \<times> string) list"
  req_Body :: "string option"

record http_response =
  StatusCode :: int
  resp_Header :: Header
  resp_Body :: string
  resp_ReadErr :: "string option"

text \<open>The values the operations pass as \<open>body\<close>.\<close>

datatype request_body =
    BodyDefinition ChainhookDefinition
  | BodyEnabled bool
  | BodyBulk BulkEnableChainhooksRequest
  | BodyEvaluate EvaluateChainhookRequest

text \<open>
  The standard library and the network, as the client calls them:
  \<^item> \<open>json_Marshal\<close>: \<open>json.Marshal\<close> of a request body, an error text or the bytes;
  \<^item> \<open>http_NewRequest\<close>: \<open>http.NewRequestWithContext\<close> on a method and a URL, an error
    text or the URL as \<open>req.URL.String()\<close> prints it;
  \<^item> \<open>CanonicalHeaderKey\<close>: the key under which \<open>Header.Set\<close> stores a header;
  \<^item> \<open>http_Do\<close>: \<open>httpClient.Do\<close>, an error text or the response;
  \<^item> \<open>json_Unmarshal_object\<close>: \<open>json.Unmarshal\<close> into a \<open>map[string]interface{}\<close>, the
    map or nothing when it returns an error;
  \<^item> one \<open>json.Unmarshal\<close> for each result type: the error text, if any, and the
    destination as the call leaves it.
\<close>

record go_runtime =
  json_Marshal :: "request_body \<Rightarrow> string + string"
  http_NewRequest :: "string \<Rightarrow> string \<Rightarrow> string + string"
  CanonicalHeaderKey :: "string \<Rightarrow> string"
  http_Do :: "http_request \<Rightarrow> string + http_response"
  json_Unmarshal_object :: "string \<Rightarrow> (string \<Rightarrow> json option) option"
  Unmarshal_Chainhook :: "string \<Rightarrow> Chainhook \<Rightarrow> string option \<times> Chainhook"
  Unmarshal_Paginated ::
    "string \<Rightarrow> PaginatedChainhookResponse \<Rightarrow> string option \<times> PaginatedChainhookResponse"
  Unmarshal_BulkResponse ::
    "string \<Rightarrow> BulkEnableChainhooksResponse \<Rightarrow> string option \<times> BulkEnableChainhooksResponse"
  Unmarshal_ConsumerSecret ::
    "string \<Rightarrow> ConsumerSecretResponse \<Rightarrow> string option \<times> ConsumerSecretResponse"
  Unmarshal_ApiStatus :: "string \<Rightarrow> ApiStatusResponse \<Rightarrow> string option \<times> ApiStatusResponse"

text \<open>
  \<open>newHttpError\<close> reads the body, ignoring a read error, and picks the message: the
  \<open>message\<close> key of the decoded object when it holds a string, else the \<open>error\<close> key when
  it holds a string, else the body as text. An empty body is not decoded.
\<close>

definition newHttpError :: "go_runtime \<Rightarrow> http_response \<Rightarrow> http_request \<Rightarrow> go_error" where
  "newHttpError rt resp req =
     (let body = resp_Body resp;
          errMsg =
            (if length body > 0 then
               (case json_Unmarshal_object rt body of
                  Some errResp \<Rightarrow>
                    (case errResp ''message'' of
                       Some (JString message) \<Rightarrow> message
                     | _ \<Rightarrow>
                       (case errResp ''error'' of
                          Some (JString message) \<Rightarrow> message
                        | _ \<Rightarrow> body))
                | None \<Rightarrow> body)
             else [])
      in HttpError (StatusCode resp) (req_URL req) (req_Method req) (resp_Header resp)
           errMsg body None)"

text \<open>\<open>req.Header.Set\<close>: one value under the canonical key.\<close>

definition Header_Set ::
  "go_runtime \<Rightarrow> (string \<times> string) list \<Rightarrow> string \<Rightarrow> string \<Rightarrow> (string \<times> string) list" where
  "Header_Set rt h key v = map_set h (CanonicalHeaderKey rt key) v"

fun set_headers ::
  "go_runtime \<Rightarrow> (string \<times> string) list \<Rightarrow> (string \<times> string) list \<Rightarrow> (string \<times> string) list" where
  "set_headers rt [] h = h"
| "set_headers rt ((key, v) # kvs) h = set_headers rt kvs (Header_Set rt h key v)"

text \<open>
  The request that \<open>request\<close> builds once the body is encoded and the URL accepted: the
  client's headers, then the two authentication headers, then the user agent.
\<close>

definition prepare_request ::
  "go_runtime \<Rightarrow> Client \<Rightarrow> string \<Rightarrow> string \<Rightarrow> string option \<Rightarrow> http_request" where
  "prepare_request rt c method url bodyReader =
     (let h1 = set_headers rt (headers c) [];
          h2 = (case jwt c of
                  None \<Rightarrow> h1
                | Some t \<Rightarrow> Header_Set rt h1 HeaderAuthorization (''Bearer '' @ t));
          h3 = (case apiKey c of
                  None \<Rightarrow> h2
                | Some k \<Rightarrow> Header_Set rt h2 HeaderAPIKey k);
          h4 = Header_Set rt h3 ''User-Agent'' (userAgent c)
      in \<lparr>req_Method = method, req_URL = url, req_Header = h4, req_Body = bodyReader\<rparr>)"

text \<open>
  \<open>request\<close>. The destination \<open>result\<close> is a pointer that may be nil; \<open>unmarshal\<close> is the
  decoder of its type. The last argument and the last component of the result are the
  wire: the requests handed to \<open>httpClient.Do\<close> so far. The result holds the error
  returned, if any, and the destination after the call.
\<close>

definition request ::
  "go_runtime \<Rightarrow> Client \<Rightarrow> string \<Rightarrow> string \<Rightarrow> request_body option \<Rightarrow>
   (string \<Rightarrow> 'd \<Rightarrow> string option \<times> 'd) \<Rightarrow> 'd option \<Rightarrow> http_request list \<Rightarrow>
   go_error option \<times> 'd option \<times> http_request list" where
  "request rt c method path body unmarshal result wire =
     (let fullURL = baseURL c @ path in
      case (case body of
              None \<Rightarrow> Inr None
            | Some b \<Rightarrow> map_sum id Some (json_Marshal rt b)) of
        Inl e \<Rightarrow> (Some (Errorf ''failed to marshal request body: '' e), result, wire)
      | Inr bodyReader \<Rightarrow>
        (case http_NewRequest rt method fullURL of
           Inl e \<Rightarrow> (Some (Errorf ''failed to create request: '' e), result, wire)
         | Inr url \<Rightarrow>
           (let req = prepare_request rt c method url bodyReader in
            case http_Do rt req of
              Inl e \<Rightarrow> (Some (Errorf ''failed to perform request: '' e), result, wire @ [req])
            | Inr resp \<Rightarrow>
                if StatusCode resp \<ge> 400 then
                  (Some (newHttpError rt resp req), result, wire @ [req])
                else if StatusCode resp = 204 then
                  (None, result, wire @ [req])
                else
                  (case resp_ReadErr resp of
                     Some e \<Rightarrow>
                       (Some (Errorf ''failed to read response body: '' e), result, wire @ [req])
                   | None \<Rightarrow>
                       (case result of
                          Some dest \<Rightarrow>
                            if length (resp_Body resp) > 0 then
                              (case unmarshal (resp_Body resp) dest of
                                 (Some e, dest') \<Rightarrow>
                                   (Some (Errorf ''failed to unmarshal response body: '' e),
                                    Some dest', wire @ [req])
                               | (None, dest') \<Rightarrow> (None, Some dest', wire @ [req]))
                            else (None, result, wire @ [req])
                        | None \<Rightarrow> (None, result, wire @ [req]))))))"

subsection \<open>Operations\<close>

text \<open>
  Each operation takes the wire and returns it with its result. An operation with a
  result declares \<open>var result T\<close>, passes \<open>&result\<close> as the destination and returns it
  when \<open>request\<close> returns no error; \<open>result_of\<close> reads the destination back (it is never
  nil there). An operation without a result passes a nil destination.
\<close>

definition result_of :: "'d \<Rightarrow> 'd option \<Rightarrow> 'd" where
  "result_of zero r = (case r of Some v \<Rightarrow> v | None \<Rightarrow> zero)"

definition no_result :: "string \<Rightarrow> unit \<Rightarrow> string option \<times> unit" where
  "no_result b u = (None, u)"

definition RegisterChainhook ::
  "go_runtime \<Rightarrow> Client \<Rightarrow> ChainhookDefinition option \<Rightarrow> http_request list \<Rightarrow>
   (go_error + Chainhook) \<times> http_request list" where
  "RegisterChainhook rt c def wire =
     (case def of
        None \<Rightarrow> (Inl (ValidationError ''definition'' ''definition cannot be nil''), wire)
      | Some d \<Rightarrow>
        (case request rt c MethodPOST EndpointChainhooks (Some (BodyDefinition d))
                (Unmarshal_Chainhook rt) (Some Chainhook_zero) wire of
           (Some e, _, wire') \<Rightarrow> (Inl e, wire')
         | (None, result, wire') \<Rightarrow> (Inr (result_of Chainhook_zero result), wire')))"

definition UpdateChainhook ::
  "go_runtime \<Rightarrow> Client \<Rightarrow> UUID \<Rightarrow> ChainhookDefinition option \<Rightarrow> http_request list \<Rightarrow>
   (go_error + Chainhook) \<times> http_request list" where
  "UpdateChainhook rt c uuid def wire =
     (if uuid = [] then (Inl (ValidationError ''uuid'' ''uuid cannot be empty''), wire)
      else
        case def of
          None \<Rightarrow> (Inl (ValidationError ''definition'' ''definition cannot be nil''), wire)
        | Some d \<Rightarrow>
          (let path = EndpointChainhook uuid in
           case request rt c MethodPATCH path (Some (BodyDefinition d))
                  (Unmarshal_Chainhook rt) (Some Chainhook_zero) wire of
             (Some e, _, wire') \<Rightarrow> (Inl e, wire')
           | (None, result, wire') \<Rightarrow> (Inr (result_of Chainhook_zero result), wire')))"

text \<open>The path of the list operation: the endpoint, and the query when options are given.\<close>

definition GetChainhooks_path :: "PaginationOptions option \<Rightarrow> string" where
  "GetChainhooks_path popts =
     (case popts of
        None \<Rightarrow> EndpointChainhooks
      | Some p \<Rightarrow>
          (let params0 = [];
               params1 = Values_Set params0 ''offset'' (FormatUint (unat (Offset p)));
               params2 = Values_Set params1 ''limit'' (FormatUint (unat (Limit p)))
           in EndpointChainhooks @ ''?'' @ Values_Encode params2))"

definition GetChainhooks ::
  "go_runtime \<Rightarrow> Client \<Rightarrow> PaginationOptions option \<Rightarrow> http_request list \<Rightarrow>
   (go_error + PaginatedChainhookResponse) \<times> http_request list" where
  "GetChainhooks rt c popts wire =
     (let path = GetChainhooks_path popts in
      case request rt c MethodGET path None
             (Unmarshal_Paginated rt) (Some PaginatedChainhookResponse_zero) wire of
        (Some e, _, wire') \<Rightarrow> (Inl e, wire')
      | (None, result, wire') \<Rightarrow>
          (Inr (result_of PaginatedChainhookResponse_zero result), wire'))"

definition GetChainhook ::
  "go_runtime \<Rightarrow> Client \<Rightarrow> UUID \<Rightarrow> http_request list \<Rightarrow>
   (go_error + Chainhook) \<times> http_request list" where
  "GetChainhook rt c uuid wire =
     (if uuid = [] then (Inl (ValidationError ''uuid'' ''uuid cannot be empty''), wire)
      else
        let path = EndpointChainhook uuid in
        case request rt c MethodGET path None
               (Unmarshal_Chainhook rt) (Some Chainhook_zero) wire of
          (Some e, _, wire') \<Rightarrow> (Inl e, wire')
        | (None, result, wire') \<Rightarrow> (Inr (result_of Chainhook_zero result), wire'))"

definition EnableChainhook ::
  "go_runtime \<Rightarrow> Client \<Rightarrow> UUID \<Rightarrow> bool \<Rightarrow> http_request list \<Rightarrow>
   go_error option \<times> http_request list" where
  "EnableChainhook rt c uuid enabled wire =
     (if uuid = [] then (Some (ValidationError ''uuid'' ''uuid cannot be empty''), wire)
      else
        let path = EndpointChainhookEnabled uuid;
            body = BodyEnabled enabled
        in case request rt c MethodPATCH path (Some body) no_result None wire of
             (e, _, wire') \<Rightarrow> (e, wire'))"

definition BulkEnableChainhooks ::
  "go_runtime \<Rightarrow> Client \<Rightarrow> BulkEnableChainhooksRequest option \<Rightarrow> http_request list \<Rightarrow>
   (go_error + BulkEnableChainhooksResponse) \<times> http_request list" where
  "BulkEnableChainhooks rt c req wire =
     (case req of
        None \<Rightarrow> (Inl (ValidationError ''request'' ''request cannot be nil''), wire)
      | Some r \<Rightarrow>
          if length (UUIDs r) = 0 \<and> WebhookURL r = None \<and> length (Statuses r) = 0 then
            (Inl (ValidationError ''request''
                    ''at least one filter (uuids, webhook_url, or statuses) must be provided''),
             wire)
          else
            (case request rt c MethodPATCH EndpointBulkEnabled (Some (BodyBulk r))
                    (Unmarshal_BulkResponse rt) (Some BulkEnableChainhooksResponse_zero) wire of
               (Some e, _, wire') \<Rightarrow> (Inl e, wire')
             | (None, result, wire') \<Rightarrow>
                 (Inr (result_of BulkEnableChainhooksResponse_zero result), wire')))"

definition DeleteChainhook ::
  "go_runtime \<Rightarrow> Client \<Rightarrow> UUID \<Rightarrow> http_request list \<Rightarrow>
   go_error option \<times> http_request list" where
  "DeleteChainhook rt c uuid wire =
     (if uuid = [] then (Some (ValidationError ''uuid'' ''uuid cannot be empty''), wire)
      else
        let path = EndpointChainhook uuid in
        case request rt c MethodDELETE path None no_result None wire of
          (e, _, wire') \<Rightarrow> (e, wire'))"

definition RotateConsumerSecret ::
  "go_runtime \<Rightarrow> Client \<Rightarrow> http_request list \<Rightarrow>
   (go_error + ConsumerSecretResponse) \<times> http_request list" where
  "RotateConsumerSecret rt c wire =
     (case request rt c MethodPOST EndpointConsumerSecret None
             (Unmarshal_ConsumerSecret rt) (Some ConsumerSecretResponse_zero) wire of
        (Some e, _, wire') \<Rightarrow> (Inl e, wire')
      | (None, result, wire') \<Rightarrow> (Inr (result_of ConsumerSecretResponse_zero result), wire'))"

definition GetConsumerSecret ::
  "go_runtime \<Rightarrow> Client \<Rightarrow> http_request list \<Rightarrow>
   (go_error + ConsumerSecretResponse) \<times> http_request list" where
  "GetConsumerSecret rt c wire =
     (case request rt c MethodGET EndpointConsumerSecret None
             (Unmarshal_ConsumerSecret rt) (Some ConsumerSecretResponse_zero) wire of
        (Some e, _, wire') \<Rightarrow> (Inl e, wire')
      | (None, result, wire') \<Rightarrow> (Inr (result_of ConsumerSecretResponse_zero result), wire'))"

definition DeleteConsumerSecret ::
  "go_runtime \<Rightarrow> Client \<Rightarrow> http_request list \<Rightarrow> go_error option \<times> http_request list" where
  "DeleteConsumerSecret rt c wire =
     (case request rt c MethodDELETE EndpointConsumerSecret None no_result None wire of
        (e, _, wire') \<Rightarrow> (e, wire'))"

definition EvaluateChainhook ::
  "go_runtime \<Rightarrow> Client \<Rightarrow> UUID \<Rightarrow> uint64 \<Rightarrow> http_request list \<Rightarrow>
   go_error option \<times> http_request list" where
  "EvaluateChainhook rt c uuid blockHeight wire =
     (if uuid = [] then (Some (ValidationError ''uuid'' ''uuid cannot be empty''), wire)
      else
        let path = EndpointEvaluate uuid;
            body = BodyEvaluate \<lparr>BlockHeight = blockHeight\<rparr>
        in case request rt c MethodPOST path (Some body) no_result None wire of
             (e, _, wire') \<Rightarrow> (e, wire'))"

definition GetStatus ::
  "go_runtime \<Rightarrow> Client \<Rightarrow> http_request list \<Rightarrow>
   (go_error + ApiStatusResponse) \<times> http_request list" where
  "GetStatus rt c wire =
     (case request rt c MethodGET EndpointStatus None
             (Unmarshal_ApiStatus rt) (Some ApiStatusResponse_zero) wire of
        (Some e, _, wire') \<Rightarrow> (Inl e, wire')
      | (None, result, wire') \<Rightarrow> (Inr (result_of ApiStatusResponse_zero result), wire'))"


subsection \<open>A runtime for the examples\<close>

text \<open>
  The examples below need one concrete runtime: every body encodes to \<open>{}\<close>, every URL
  is accepted as it is, header keys are kept, the server answers every request with
  \<open>resp\<close>, an error body decodes as \<open>decode\<close> says, and the decoder of a \<open>Chainhook\<close>
  stores the body in the \<open>UUID\<close> field, so that a decode would be visible.
\<close>

definition example_runtime ::
  "http_response \<Rightarrow> (string \<Rightarrow> (string \<Rightarrow> json option) option) \<Rightarrow> go_runtime" where
  "example_runtime resp decode =
     \<lparr>json_Marshal = (\<lambda>b. Inr ''{}''),
      http_NewRequest = (\<lambda>method url. Inr url),
      CanonicalHeaderKey = (\<lambda>key. key),
      http_Do = (\<lambda>req. Inr resp),
      json_Unmarshal_object = decode,
      Unmarshal_Chainhook = (\<lambda>b d. (None, d\<lparr>chainhook_UUID := b\<rparr>)),
      Unmarshal_Paginated = (\<lambda>b d. (None, d)),
      Unmarshal_BulkResponse = (\<lambda>b d. (None, d)),
      Unmarshal_ConsumerSecret = (\<lambda>b d. (None, d)),
      Unmarshal_ApiStatus = (\<lambda>b d. (None, d))\<rparr>"

definition not_found_body :: string where
  \<open>not_found_body = ''{"message":"not found"}''\<close>

definition not_found_response :: http_response where
  "not_found_response =
     \<lparr>StatusCode = 404, resp_Header = [(''Content-Type'', [''application/json''])],
      resp_Body = not_found_body, resp_ReadErr = None\<rparr>"

definition not_found_decode :: "string \<Rightarrow> (string \<Rightarrow> json option) option" where
  "not_found_decode b =
     (if b = not_found_body then Some [''message'' \<mapsto> JString ''not found''] else None)"

definition no_content_response :: http_response where
  "no_content_response =
     \<lparr>StatusCode = 204, resp_Header = [], resp_Body = ''ignored'', resp_ReadErr = None\<rparr>"

section \<open>Properties of the definition builder\<close>

lemmas addX_defs =
  AddFTTransfer_def AddFTMint_def AddFTBurn_def AddNFTTransfer_def AddNFTMint_def
  AddNFTBurn_def AddSTXTransfer_def AddSTXMint_def AddSTXBurn_def AddContractDeploy_def
  AddContractCall_def AddContractLog_def AddBalanceChange_def AddCoinbase_def
  AddTenureChange_def

lemmas setter_defs =
  WithName_def WithNetwork_def WithWebhookURL_def AddFilter_def WithOptions_def
  WithEnableOnRegistration_def WithExpireAfterEvaluations_def
  WithExpireAfterOccurrences_def WithDecodeClarityValues_def WithIncludeContractABI_def
  WithIncludeContractSourceCode_def WithIncludePostConditions_def
  WithIncludeRawTransactions_def WithIncludeBlockSignatures_def
  WithIncludeBlockMetadata_def

lemmas event_type_defs =
  EventTypeFTEvent_def EventTypeFTMint_def EventTypeFTBurn_def EventTypeFTTransfer_def
  EventTypeNFTEvent_def EventTypeNFTMint_def EventTypeNFTBurn_def EventTypeNFTTransfer_def
  EventTypeSTXEvent_def EventTypeSTXMint_def EventTypeSTXBurn_def EventTypeSTXTransfer_def
  EventTypeContractDeploy_def EventTypeContractCall_def EventTypeContractLog_def
  EventTypeBalanceChange_def EventTypeCoinbase_def EventTypeTenureChange_def

subsection \<open>The order of the checks in \<open>Build\<close>\<close>

text \<open>
  Claim C1. For every builder whose error slot is nil, \<open>Build\<close> returns the assembled
  definition (the builder's definition with the accumulated filters stored in it) when
  the name, the action URL and the filter list are all non-empty. Otherwise it fails
  with a \<open>ValidationError\<close> on the first requirement violated, in the order name, action
  URL, filters: an empty name fails on \<open>name\<close> whatever else is missing, an empty URL
  under a non-empty name fails on \<open>action.url\<close>, and an empty filter list under a
  non-empty name and URL fails on \<open>filters\<close>.
\<close>

theorem Build_checks_in_order:
  assumes "err b = None"
  shows "(Name (builder_definition b) \<noteq> [] \<and> action_URL (Action (builder_definition b)) \<noteq> []
            \<and> filters b \<noteq> [] \<longrightarrow>
          fst (Build b) = Inr ((builder_definition b)\<lparr>Filters := \<lparr>Events = filters b\<rparr>\<rparr>))
       \<and> (Name (builder_definition b) = [] \<longrightarrow>
          fst (Build b) = Inl (ValidationError ''name'' ''name is required''))
       \<and> (Name (builder_definition b) \<noteq> [] \<and> action_URL (Action (builder_definition b)) = [] \<longrightarrow>
          fst (Build b) = Inl (ValidationError ''action.url'' ''webhook URL is required''))
       \<and> (Name (builder_definition b) \<noteq> [] \<and> action_URL (Action (builder_definition b)) \<noteq> []
            \<and> filters b = [] \<longrightarrow>
          fst (Build b) = Inl (ValidationError ''filters'' ''at least one filter is required''))"
  using assms by (simp add: Build_def Let_def)

text \<open>
  The four outcomes on builders made by \<open>NewChainhookBuilder\<close>: nothing set, the name
  only, the name and the URL, and all three.
\<close>

theorem Build_checks_in_order_witness:
  "err (NewChainhookBuilder [] NetworkMainnet) = None
   \<and> fst (Build (NewChainhookBuilder [] NetworkMainnet))
       = Inl (ValidationError ''name'' ''name is required'')
   \<and> fst (Build (NewChainhookBuilder ''hook'' NetworkMainnet))
       = Inl (ValidationError ''action.url'' ''webhook URL is required'')
   \<and> fst (Build (WithWebhookURL ''https://example.com/webhook''
                   (NewChainhookBuilder ''hook'' NetworkMainnet)))
       = Inl (ValidationError ''filters'' ''at least one filter is required'')
   \<and> (\<exists>d. fst (Build (AddTenureChange (WithWebhookURL ''https://example.com/webhook''
                          (NewChainhookBuilder ''hook'' NetworkMainnet)))) = Inr d
          \<and> Events (Filters d) = [TenureChangeFilter EventTypeTenureChange])"
  using Build_checks_in_order [of "NewChainhookBuilder [] NetworkMainnet"]
    Build_checks_in_order [of "NewChainhookBuilder ''hook'' NetworkMainnet"]
    Build_checks_in_order [of "WithWebhookURL ''https://example.com/webhook''
                                 (NewChainhookBuilder ''hook'' NetworkMainnet)"]
    Build_checks_in_order [of "AddTenureChange (WithWebhookURL ''https://example.com/webhook''
                                 (NewChainhookBuilder ''hook'' NetworkMainnet))"]
  by (simp add: NewChainhookBuilder_def WithWebhookURL_def AddTenureChange_def AddFilter_def)

subsection \<open>The error slot\<close>

lemma run_addX_sticky: "err b = Some e \<Longrightarrow> run_addX c b = b"
  by (cases c) (simp_all add: addX_defs AddFilter_def)

lemma run_call_sticky: "err b = Some e \<Longrightarrow> run_call c b = b"
  by (cases c) (simp_all add: setter_defs run_addX_sticky)

lemma run_calls_sticky: "err b = Some e \<Longrightarrow> run_calls cs b = b"
  by (induction cs) (simp_all add: run_call_sticky)

text \<open>
  Claim C8. The error slot is sticky: on a builder whose error slot holds an error,
  every fluent call (the three \<open>With\<close> setters of the definition, \<open>AddFilter\<close>, every
  convenience method, \<open>WithOptions\<close> and every option setter) returns the builder
  unchanged, so does every chain of such calls, and \<open>Build\<close> returns the stored error
  as it is, before and after the chain, without looking at the name, the URL or the
  filters.
\<close>

theorem sticky_error:
  assumes "err b = Some e"
  shows "run_call c b = b \<and> run_calls cs b = b \<and> Build b = (Inl e, b)
         \<and> Build (run_calls cs b) = (Inl e, b)"
  using assms by (simp add: run_call_sticky run_calls_sticky Build_def)

text \<open>
  A builder with a stored error, a complete definition and one filter: the calls change
  nothing and \<open>Build\<close> returns the stored error.
\<close>

theorem sticky_error_witness:
  "err ((AddTenureChange (WithWebhookURL ''https://example.com/webhook''
           (NewChainhookBuilder ''hook'' NetworkMainnet)))\<lparr>err := Some (ConfigError ''stored'')\<rparr>)
     = Some (ConfigError ''stored'')
   \<and> filters (run_calls [CallWithName [], CallAddX CallAddTenureChange,
                          CallWithEnableOnRegistration True]
        ((AddTenureChange (WithWebhookURL ''https://example.com/webhook''
           (NewChainhookBuilder ''hook'' NetworkMainnet)))\<lparr>err := Some (ConfigError ''stored'')\<rparr>))
     = [TenureChangeFilter EventTypeTenureChange]
   \<and> fst (Build ((AddTenureChange (WithWebhookURL ''https://example.com/webhook''
           (NewChainhookBuilder ''hook'' NetworkMainnet)))\<lparr>err := Some (ConfigError ''stored'')\<rparr>))
     = Inl (ConfigError ''stored'')"
proof -
  let ?b = "(AddTenureChange (WithWebhookURL ''https://example.com/webhook''
           (NewChainhookBuilder ''hook'' NetworkMainnet)))\<lparr>err := Some (ConfigError ''stored'')\<rparr>"
  let ?cs = "[CallWithName [], CallAddX CallAddTenureChange, CallWithEnableOnRegistration True]"
  have e: "err ?b = Some (ConfigError ''stored'')"
    by simp
  have f: "filters ?b = [TenureChangeFilter EventTypeTenureChange]"
    by (simp add: NewChainhookBuilder_def WithWebhookURL_def AddTenureChange_def AddFilter_def)
  from sticky_error [OF e, of "CallWithName []" ?cs]
  have r: "run_calls ?cs ?b = ?b" and bd: "Build ?b = (Inl (ConfigError ''stored''), ?b)"
    by blast+
  show ?thesis
    unfolding r bd using e f by simp
qed

lemma run_addX_err: "err (run_addX c b) = err b"
  by (cases c) (simp_all add: addX_defs AddFilter_def)

lemma run_call_err: "err (run_call c b) = err b"
  by (cases c) (simp_all add: setter_defs run_addX_err Let_def)

lemma run_calls_err: "err (run_calls cs b) = err b"
  by (induction cs arbitrary: b) (simp_all add: run_call_err)

lemma Build_err: "err (snd (Build b)) = err b"
  by (simp add: Build_def Let_def split: option.splits)

lemma run_op_err: "err (run_op p b) = err b"
  by (cases p) (simp_all add: run_call_err Build_err)

lemma run_ops_err: "err (run_ops ps b) = err b"
  by (induction ps arbitrary: b) (simp_all add: run_op_err)

text \<open>
  Claim C10. No operation of the builder assigns the error slot: a fluent call leaves
  the slot as it finds it, and so does \<open>Build\<close>. Hence after any sequence of operations
  on a builder made by \<open>NewChainhookBuilder\<close>, fluent calls and calls of \<open>Build\<close> in any
  order, the slot is still nil. The sticky branch of a setter and the first return of
  \<open>Build\<close> are therefore never taken on such a builder, and the outcome of \<open>Build\<close>,
  the first as well as any later one, is the outcome of the three field checks. The
  same is stated for chains of fluent calls alone.
\<close>

theorem err_never_assigned:
  "err (run_call c b) = err b
   \<and> err (snd (Build b)) = err b
   \<and> err (run_ops ps (NewChainhookBuilder name network)) = None
   \<and> fst (Build (run_ops ps (NewChainhookBuilder name network))) =
       (let b = run_ops ps (NewChainhookBuilder name network) in
        if Name (builder_definition b) = [] then
          Inl (ValidationError ''name'' ''name is required'')
        else if action_URL (Action (builder_definition b)) = [] then
          Inl (ValidationError ''action.url'' ''webhook URL is required'')
        else if filters b = [] then
          Inl (ValidationError ''filters'' ''at least one filter is required'')
        else Inr ((builder_definition b)\<lparr>Filters := \<lparr>Events = filters b\<rparr>\<rparr>))
   \<and> err (run_calls cs (NewChainhookBuilder name network)) = None
   \<and> fst (Build (run_calls cs (NewChainhookBuilder name network))) =
       (let b = run_calls cs (NewChainhookBuilder name network) in
        if Name (builder_definition b) = [] then
          Inl (ValidationError ''name'' ''name is required'')
        else if action_URL (Action (builder_definition b)) = [] then
          Inl (ValidationError ''action.url'' ''webhook URL is required'')
        else if filters b = [] then
          Inl (ValidationError ''filters'' ''at least one filter is required'')
        else Inr ((builder_definition b)\<lparr>Filters := \<lparr>Events = filters b\<rparr>\<rparr>))"
proof -
  have n: "err (NewChainhookBuilder name network) = None"
    by (simp add: NewChainhookBuilder_def)
  have p: "err (run_ops ps (NewChainhookBuilder name network)) = None"
    by (simp add: run_ops_err n)
  have e: "err (run_calls cs (NewChainhookBuilder name network)) = None"
    by (simp add: run_calls_err n)
  have bp: "fst (Build (run_ops ps (NewChainhookBuilder name network))) =
       (let b = run_ops ps (NewChainhookBuilder name network) in
        if Name (builder_definition b) = [] then
          Inl (ValidationError ''name'' ''name is required'')
        else if action_URL (Action (builder_definition b)) = [] then
          Inl (ValidationError ''action.url'' ''webhook URL is required'')
        else if filters b = [] then
          Inl (ValidationError ''filters'' ''at least one filter is required'')
        else Inr ((builder_definition b)\<lparr>Filters := \<lparr>Events = filters b\<rparr>\<rparr>))"
    using p by (simp add: Build_def Let_def)
  have be: "fst (Build (run_calls cs (NewChainhookBuilder name network))) =
       (let b = run_calls cs (NewChainhookBuilder name network) in
        if Name (builder_definition b) = [] then
          Inl (ValidationError ''name'' ''name is required'')
        else if action_URL (Action (builder_definition b)) = [] then
          Inl (ValidationError ''action.url'' ''webhook URL is required'')
        else if filters b = [] then
          Inl (ValidationError ''filters'' ''at least one filter is required'')
        else Inr ((builder_definition b)\<lparr>Filters := \<lparr>Events = filters b\<rparr>\<rparr>))"
    using e by (simp add: Build_def Let_def)
  show ?thesis
    by (intro conjI run_call_err Build_err p bp e be)
qed

subsection \<open>The convenience methods\<close>

text \<open>
  Every convenience method is \<open>AddFilter\<close> on a filter whose \<open>Type\<close> is the constant of
  its struct, and that constant is none of \<open>ft_event\<close>, \<open>nft_event\<close>, \<open>stx_event\<close>.
\<close>

lemma run_addX_wraps:
  "\<exists>f. run_addX c b = AddFilter f b \<and> filter_Type f = variant_EventType f
       \<and> filter_Type f \<in> set event_type_constants
            - {EventTypeFTEvent, EventTypeNFTEvent, EventTypeSTXEvent}"
proof (cases c)
  case (CallAddFTTransfer a s r m)
  then show ?thesis
    by (intro exI[of _ "FTTransferFilter EventTypeFTTransfer a s r m"])
       (simp add: AddFTTransfer_def event_type_constants_def event_type_defs)
next
  case (CallAddFTMint a r m)
  then show ?thesis
    by (intro exI[of _ "FTMintFilter EventTypeFTMint a r m"])
       (simp add: AddFTMint_def event_type_constants_def event_type_defs)
next
  case (CallAddFTBurn a s m)
  then show ?thesis
    by (intro exI[of _ "FTBurnFilter EventTypeFTBurn a s m"])
       (simp add: AddFTBurn_def event_type_constants_def event_type_defs)
next
  case (CallAddNFTTransfer a s r)
  then show ?thesis
    by (intro exI[of _ "NFTTransferFilter EventTypeNFTTransfer a s r"])
       (simp add: AddNFTTransfer_def event_type_constants_def event_type_defs)
next
  case (CallAddNFTMint a r)
  then show ?thesis
    by (intro exI[of _ "NFTMintFilter EventTypeNFTMint a r"])
       (simp add: AddNFTMint_def event_type_constants_def event_type_defs)
next
  case (CallAddNFTBurn a s)
  then show ?thesis
    by (intro exI[of _ "NFTBurnFilter EventTypeNFTBurn a s"])
       (simp add: AddNFTBurn_def event_type_constants_def event_type_defs)
next
  case (CallAddSTXTransfer s r m)
  then show ?thesis
    by (intro exI[of _ "STXTransferFilter EventTypeSTXTransfer s r m"])
       (simp add: AddSTXTransfer_def event_type_constants_def event_type_defs)
next
  case (CallAddSTXMint r m)
  then show ?thesis
    by (intro exI[of _ "STXMintFilter EventTypeSTXMint r m"])
       (simp add: AddSTXMint_def event_type_constants_def event_type_defs)
next
  case (CallAddSTXBurn s m)
  then show ?thesis
    by (intro exI[of _ "STXBurnFilter EventTypeSTXBurn s m"])
       (simp add: AddSTXBurn_def event_type_constants_def event_type_defs)
next
  case (CallAddContractDeploy d)
  then show ?thesis
    by (intro exI[of _ "ContractDeployFilter EventTypeContractDeploy d"])
       (simp add: AddContractDeploy_def event_type_constants_def event_type_defs)
next
  case (CallAddContractCall i m s)
  then show ?thesis
    by (intro exI[of _ "ContractCallFilter EventTypeContractCall i m s"])
       (simp add: AddContractCall_def event_type_constants_def event_type_defs)
next
  case (CallAddContractLog i)
  then show ?thesis
    by (intro exI[of _ "ContractLogFilter EventTypeContractLog i"])
       (simp add: AddContractLog_def event_type_constants_def event_type_defs)
next
  case (CallAddBalanceChange p)
  then show ?thesis
    by (intro exI[of _ "BalanceChangeFilter EventTypeBalanceChange p"])
       (simp add: AddBalanceChange_def event_type_constants_def event_type_defs)
next
  case (CallAddCoinbase r)
  then show ?thesis
    by (intro exI[of _ "CoinbaseFilter EventTypeCoinbase r"])
       (simp add: AddCoinbase_def event_type_constants_def event_type_defs)
next
  case CallAddTenureChange
  then show ?thesis
    by (intro exI[of _ "TenureChangeFilter EventTypeTenureChange"])
       (simp add: AddTenureChange_def event_type_constants_def event_type_defs)
qed

lemma AddFilter_inj: "err b = None \<Longrightarrow> AddFilter f b = AddFilter g b \<Longrightarrow> f = g"
proof -
  assume e: "err b = None" and q: "AddFilter f b = AddFilter g b"
  from q have "filters (AddFilter f b) = filters (AddFilter g b)" by simp
  with e show "f = g" by (simp add: AddFilter_def)
qed

lemma event_type_constants_distinct:
  "length event_type_constants = 18 \<and> distinct event_type_constants"
  by (simp add: event_type_constants_def event_type_defs)

lemma addX_tags_cover:
  "t \<in> set event_type_constants - {EventTypeFTEvent, EventTypeNFTEvent, EventTypeSTXEvent}
   \<Longrightarrow> \<exists>c. \<forall>b. \<exists>f. run_addX c b = AddFilter f b \<and> filter_Type f = t"
proof -
  assume "t \<in> set event_type_constants - {EventTypeFTEvent, EventTypeNFTEvent, EventTypeSTXEvent}"
  then consider
      "t = EventTypeFTMint" | "t = EventTypeFTBurn" | "t = EventTypeFTTransfer"
    | "t = EventTypeNFTMint" | "t = EventTypeNFTBurn" | "t = EventTypeNFTTransfer"
    | "t = EventTypeSTXMint" | "t = EventTypeSTXBurn" | "t = EventTypeSTXTransfer"
    | "t = EventTypeContractDeploy" | "t = EventTypeContractCall" | "t = EventTypeContractLog"
    | "t = EventTypeBalanceChange" | "t = EventTypeCoinbase" | "t = EventTypeTenureChange"
    by (auto simp add: event_type_constants_def)
  then show ?thesis
  proof cases
    case 1 then show ?thesis
      by (intro exI[of _ "CallAddFTMint [] None None"]) (auto simp add: AddFTMint_def)
  next
    case 2 then show ?thesis
      by (intro exI[of _ "CallAddFTBurn [] None None"]) (auto simp add: AddFTBurn_def)
  next
    case 3 then show ?thesis
      by (intro exI[of _ "CallAddFTTransfer [] None None None"]) (auto simp add: AddFTTransfer_def)
  next
    case 4 then show ?thesis
      by (intro exI[of _ "CallAddNFTMint [] None"]) (auto simp add: AddNFTMint_def)
  next
    case 5 then show ?thesis
      by (intro exI[of _ "CallAddNFTBurn [] None"]) (auto simp add: AddNFTBurn_def)
  next
    case 6 then show ?thesis
      by (intro exI[of _ "CallAddNFTTransfer [] None None"]) (auto simp add: AddNFTTransfer_def)
  next
    case 7 then show ?thesis
      by (intro exI[of _ "CallAddSTXMint None None"]) (auto simp add: AddSTXMint_def)
  next
    case 8 then show ?thesis
      by (intro exI[of _ "CallAddSTXBurn None None"]) (auto simp add: AddSTXBurn_def)
  next
    case 9 then show ?thesis
      by (intro exI[of _ "CallAddSTXTransfer None None None"]) (auto simp add: AddSTXTransfer_def)
  next
    case 10 then show ?thesis
      by (intro exI[of _ "CallAddContractDeploy None"]) (auto simp add: AddContractDeploy_def)
  next
    case 11 then show ?thesis
      by (intro exI[of _ "CallAddContractCall None None None"]) (auto simp add: AddContractCall_def)
  next
    case 12 then show ?thesis
      by (intro exI[of _ "CallAddContractLog None"]) (auto simp add: AddContractLog_def)
  next
    case 13 then show ?thesis
      by (intro exI[of _ "CallAddBalanceChange None"]) (auto simp add: AddBalanceChange_def)
  next
    case 14 then show ?thesis
      by (intro exI[of _ "CallAddCoinbase None"]) (auto simp add: AddCoinbase_def)
  next
    case 15 then show ?thesis
      by (intro exI[of _ "CallAddTenureChange"]) (auto simp add: AddTenureChange_def)
  qed
qed

text \<open>
  Claim C6 says that the builder has one convenience method for each of the 16 filter
  variants. The source declares 18 event types, and no convenience method adds a filter
  tagged \<open>ft_event\<close>: whatever the method, its arguments and the builder (with a nil
  error slot, so that the filter is added), the filter handed to \<open>AddFilter\<close> has another
  tag.
\<close>

theorem addX_for_every_variant_counterexample:
  "length event_type_constants \<noteq> 16
   \<and> \<not> (\<exists>c b f. err b = None \<and> run_addX c b = AddFilter f b \<and> filter_Type f = EventTypeFTEvent)"
proof -
  have "\<not> (\<exists>c b f. err b = None \<and> run_addX c b = AddFilter f b \<and> filter_Type f = EventTypeFTEvent)"
  proof
    assume "\<exists>c b f. err b = None \<and> run_addX c b = AddFilter f b \<and> filter_Type f = EventTypeFTEvent"
    then obtain c b f where e: "err b = None" and r: "run_addX c b = AddFilter f b"
      and t: "filter_Type f = EventTypeFTEvent" by blast
    from run_addX_wraps [of c b] obtain g where g: "run_addX c b = AddFilter g b"
      and m: "filter_Type g \<in> set event_type_constants
            - {EventTypeFTEvent, EventTypeNFTEvent, EventTypeSTXEvent}" by blast
    from e r g have "f = g" by (simp add: AddFilter_inj)
    with t m show False by simp
  qed
  then show ?thesis by (simp add: event_type_constants_def)
qed

text \<open>
  Claim C6, amended. The builder has 15 convenience methods, one for each of the 18
  declared filter variants except \<open>FTEvent\<close>, \<open>NFTEvent\<close> and \<open>STXEvent\<close>. Method by
  method: the call is the method; the method is \<open>AddFilter\<close> on one filter struct, built
  from the method's arguments with a constant in the \<open>Type\<close> field (a thin wrapper); that
  constant is the event-type constant of the struct's variant; and on a fresh builder
  the filter list after the call holds exactly one filter, tagged with that constant,
  whatever the arguments. The tags the methods produce are the 18 declared event types
  less \<open>ft_event\<close>, \<open>nft_event\<close> and \<open>stx_event\<close>, 15 in number.
\<close>

theorem addX_wraps_AddFilter:
  "run_addX (CallAddFTTransfer asset sender receiver amount) b = AddFTTransfer asset sender receiver amount b
   \<and> AddFTTransfer asset sender receiver amount b = AddFilter (FTTransferFilter EventTypeFTTransfer asset sender receiver amount) b
   \<and> variant_EventType (FTTransferFilter EventTypeFTTransfer asset sender receiver amount) = EventTypeFTTransfer
   \<and> map filter_Type (filters (AddFTTransfer asset sender receiver amount (NewChainhookBuilder name network))) = [EventTypeFTTransfer]
   \<and> run_addX (CallAddFTMint asset recipient amount) b = AddFTMint asset recipient amount b
   \<and> AddFTMint asset recipient amount b = AddFilter (FTMintFilter EventTypeFTMint asset recipient amount) b
   \<and> variant_EventType (FTMintFilter EventTypeFTMint asset recipient amount) = EventTypeFTMint
   \<and> map filter_Type (filters (AddFTMint asset recipient amount (NewChainhookBuilder name network))) = [EventTypeFTMint]
   \<and> run_addX (CallAddFTBurn asset sender amount) b = AddFTBurn asset sender amount b
   \<and> AddFTBurn asset sender amount b = AddFilter (FTBurnFilter EventTypeFTBurn asset sender amount) b
   \<and> variant_EventType (FTBurnFilter EventTypeFTBurn asset sender amount) = EventTypeFTBurn
   \<and> map filter_Type (filters (AddFTBurn asset sender amount (NewChainhookBuilder name network))) = [EventTypeFTBurn]
   \<and> run_addX (CallAddNFTTransfer asset sender receiver) b = AddNFTTransfer asset sender receiver b
   \<and> AddNFTTransfer asset sender receiver b = AddFilter (NFTTransferFilter EventTypeNFTTransfer asset sender receiver) b
   \<and> variant_EventType (NFTTransferFilter EventTypeNFTTransfer asset sender receiver) = EventTypeNFTTransfer
   \<and> map filter_Type (filters (AddNFTTransfer asset sender receiver (NewChainhookBuilder name network))) = [EventTypeNFTTransfer]
   \<and> run_addX (CallAddNFTMint asset recipient) b = AddNFTMint asset recipient b
   \<and> AddNFTMint asset recipient b = AddFilter (NFTMintFilter EventTypeNFTMint asset recipient) b
   \<and> variant_EventType (NFTMintFilter EventTypeNFTMint asset recipient) = EventTypeNFTMint
   \<and> map filter_Type (filters (AddNFTMint asset recipient (NewChainhookBuilder name network))) = [EventTypeNFTMint]
   \<and> run_addX (CallAddNFTBurn asset sender) b = AddNFTBurn asset sender b
   \<and> AddNFTBurn asset sender b = AddFilter (NFTBurnFilter EventTypeNFTBurn asset sender) b
   \<and> variant_EventType (NFTBurnFilter EventTypeNFTBurn asset sender) = EventTypeNFTBurn
   \<and> map filter_Type (filters (AddNFTBurn asset sender (NewChainhookBuilder name network))) = [EventTypeNFTBurn]
   \<and> run_addX (CallAddSTXTransfer sender receiver amount) b = AddSTXTransfer sender receiver amount b
   \<and> AddSTXTransfer sender receiver amount b = AddFilter (STXTransferFilter EventTypeSTXTransfer sender receiver amount) b
   \<and> variant_EventType (STXTransferFilter EventTypeSTXTransfer sender receiver amount) = EventTypeSTXTransfer
   \<and> map filter_Type (filters (AddSTXTransfer sender receiver amount (NewChainhookBuilder name network))) = [EventTypeSTXTransfer]
   \<and> run_addX (CallAddSTXMint recipient amount) b = AddSTXMint recipient amount b
   \<and> AddSTXMint recipient amount b = AddFilter (STXMintFilter EventTypeSTXMint recipient amount) b
   \<and> variant_EventType (STXMintFilter EventTypeSTXMint recipient amount) = EventTypeSTXMint
   \<and> map filter_Type (filters (AddSTXMint recipient amount (NewChainhookBuilder name network))) = [EventTypeSTXMint]
   \<and> run_addX (CallAddSTXBurn sender amount) b = AddSTXBurn sender amount b
   \<and> AddSTXBurn sender amount b = AddFilter (STXBurnFilter EventTypeSTXBurn sender amount) b
   \<and> variant_EventType (STXBurnFilter EventTypeSTXBurn sender amount) = EventTypeSTXBurn
   \<and> map filter_Type (filters (AddSTXBurn sender amount (NewChainhookBuilder name network))) = [EventTypeSTXBurn]
   \<and> run_addX (CallAddContractDeploy deployerPrincipal) b = AddContractDeploy deployerPrincipal b
   \<and> AddContractDeploy deployerPrincipal b = AddFilter (ContractDeployFilter EventTypeContractDeploy deployerPrincipal) b
   \<and> variant_EventType (ContractDeployFilter EventTypeContractDeploy deployerPrincipal) = EventTypeContractDeploy
   \<and> map filter_Type (filters (AddContractDeploy deployerPrincipal (NewChainhookBuilder name network))) = [EventTypeContractDeploy]
   \<and> run_addX (CallAddContractCall contractID method sender) b = AddContractCall contractID method sender b
   \<and> AddContractCall contractID method sender b = AddFilter (ContractCallFilter EventTypeContractCall contractID method sender) b
   \<and> variant_EventType (ContractCallFilter EventTypeContractCall contractID method sender) = EventTypeContractCall
   \<and> map filter_Type (filters (AddContractCall contractID method sender (NewChainhookBuilder name network))) = [EventTypeContractCall]
   \<and> run_addX (CallAddContractLog contractID) b = AddContractLog contractID b
   \<and> AddContractLog contractID b = AddFilter (ContractLogFilter EventTypeContractLog contractID) b
   \<and> variant_EventType (ContractLogFilter EventTypeContractLog contractID) = EventTypeContractLog
   \<and> map filter_Type (filters (AddContractLog contractID (NewChainhookBuilder name network))) = [EventTypeContractLog]
   \<and> run_addX (CallAddBalanceChange p) b = AddBalanceChange p b
   \<and> AddBalanceChange p b = AddFilter (BalanceChangeFilter EventTypeBalanceChange p) b
   \<and> variant_EventType (BalanceChangeFilter EventTypeBalanceChange p) = EventTypeBalanceChange
   \<and> map filter_Type (filters (AddBalanceChange p (NewChainhookBuilder name network))) = [EventTypeBalanceChange]
   \<and> run_addX (CallAddCoinbase recipient) b = AddCoinbase recipient b
   \<and> AddCoinbase recipient b = AddFilter (CoinbaseFilter EventTypeCoinbase recipient) b
   \<and> variant_EventType (CoinbaseFilter EventTypeCoinbase recipient) = EventTypeCoinbase
   \<and> map filter_Type (filters (AddCoinbase recipient (NewChainhookBuilder name network))) = [EventTypeCoinbase]
   \<and> run_addX CallAddTenureChange b = AddTenureChange b
   \<and> AddTenureChange b = AddFilter (TenureChangeFilter EventTypeTenureChange) b
   \<and> variant_EventType (TenureChangeFilter EventTypeTenureChange) = EventTypeTenureChange
   \<and> map filter_Type (filters (AddTenureChange (NewChainhookBuilder name network))) = [EventTypeTenureChange]
   \<and> (\<exists>f. run_addX c b = AddFilter f b \<and> filter_Type f = variant_EventType f)
   \<and> {t. \<exists>c. \<exists>f. run_addX c (NewChainhookBuilder name network)
                     = AddFilter f (NewChainhookBuilder name network) \<and> filter_Type f = t}
       = set event_type_constants - {EventTypeFTEvent, EventTypeNFTEvent, EventTypeSTXEvent}
   \<and> card (set event_type_constants - {EventTypeFTEvent, EventTypeNFTEvent, EventTypeSTXEvent}) = 15
   \<and> length event_type_constants = 18 \<and> distinct event_type_constants"
proof -
  let ?b = "NewChainhookBuilder name network"
  have e: "err ?b = None" by (simp add: NewChainhookBuilder_def)
  have m: "run_addX (CallAddFTTransfer asset sender receiver amount) b = AddFTTransfer asset sender receiver amount b
   \<and> AddFTTransfer asset sender receiver amount b = AddFilter (FTTransferFilter EventTypeFTTransfer asset sender receiver amount) b
   \<and> variant_EventType (FTTransferFilter EventTypeFTTransfer asset sender receiver amount) = EventTypeFTTransfer
   \<and> map filter_Type (filters (AddFTTransfer asset sender receiver amount (NewChainhookBuilder name network))) = [EventTypeFTTransfer]
   \<and> run_addX (CallAddFTMint asset recipient amount) b = AddFTMint asset recipient amount b
   \<and> AddFTMint asset recipient amount b = AddFilter (FTMintFilter EventTypeFTMint asset recipient amount) b
   \<and> variant_EventType (FTMintFilter EventTypeFTMint asset recipient amount) = EventTypeFTMint
   \<and> map filter_Type (filters (AddFTMint asset recipient amount (NewChainhookBuilder name network))) = [EventTypeFTMint]
   \<and> run_addX (CallAddFTBurn asset sender amount) b = AddFTBurn asset sender amount b
   \<and> AddFTBurn asset sender amount b = AddFilter (FTBurnFilter EventTypeFTBurn asset sender amount) b
   \<and> variant_EventType (FTBurnFilter EventTypeFTBurn asset sender amount) = EventTypeFTBurn
   \<and> map filter_Type (filters (AddFTBurn asset sender amount (NewChainhookBuilder name network))) = [EventTypeFTBurn]
   \<and> run_addX (CallAddNFTTransfer asset sender receiver) b = AddNFTTransfer asset sender receiver b
   \<and> AddNFTTransfer asset sender receiver b = AddFilter (NFTTransferFilter EventTypeNFTTransfer asset sender receiver) b
   \<and> variant_EventType (NFTTransferFilter EventTypeNFTTransfer asset sender receiver) = EventTypeNFTTransfer
   \<and> map filter_Type (filters (AddNFTTransfer asset sender receiver (NewChainhookBuilder name network))) = [EventTypeNFTTransfer]
   \<and> run_addX (CallAddNFTMint asset recipient) b = AddNFTMint asset recipient b
   \<and> AddNFTMint asset recipient b = AddFilter (NFTMintFilter EventTypeNFTMint asset recipient) b
   \<and> variant_EventType (NFTMintFilter EventTypeNFTMint asset recipient) = EventTypeNFTMint
   \<and> map filter_Type (filters (AddNFTMint asset recipient (NewChainhookBuilder name network))) = [EventTypeNFTMint]
   \<and> run_addX (CallAddNFTBurn asset sender) b = AddNFTBurn asset sender b
   \<and> AddNFTBurn asset sender b = AddFilter (NFTBurnFilter EventTypeNFTBurn asset sender) b
   \<and> variant_EventType (NFTBurnFilter EventTypeNFTBurn asset sender) = EventTypeNFTBurn
   \<and> map filter_Type (filters (AddNFTBurn asset sender (NewChainhookBuilder name network))) = [EventTypeNFTBurn]
   \<and> run_addX (CallAddSTXTransfer sender receiver amount) b = AddSTXTransfer sender receiver amount b
   \<and> AddSTXTransfer sender receiver amount b = AddFilter (STXTransferFilter EventTypeSTXTransfer sender receiver amount) b
   \<and> variant_EventType (STXTransferFilter EventTypeSTXTransfer sender receiver amount) = EventTypeSTXTransfer
   \<and> map filter_Type (filters (AddSTXTransfer sender receiver amount (NewChainhookBuilder name network))) = [EventTypeSTXTransfer]
   \<and> run_addX (CallAddSTXMint recipient amount) b = AddSTXMint recipient amount b
   \<and> AddSTXMint recipient amount b = AddFilter (STXMintFilter EventTypeSTXMint recipient amount) b
   \<and> variant_EventType (STXMintFilter EventTypeSTXMint recipient amount) = EventTypeSTXMint
   \<and> map filter_Type (filters (AddSTXMint recipient amount (NewChainhookBuilder name network))) = [EventTypeSTXMint]
   \<and> run_addX (CallAddSTXBurn sender amount) b = AddSTXBurn sender amount b
   \<and> AddSTXBurn sender amount b = AddFilter (STXBurnFilter EventTypeSTXBurn sender amount) b
   \<and> variant_EventType (STXBurnFilter EventTypeSTXBurn sender amount) = EventTypeSTXBurn
   \<and> map filter_Type (filters (AddSTXBurn sender amount (NewChainhookBuilder name network))) = [EventTypeSTXBurn]
   \<and> run_addX (CallAddContractDeploy deployerPrincipal) b = AddContractDeploy deployerPrincipal b
   \<and> AddContractDeploy deployerPrincipal b = AddFilter (ContractDeployFilter EventTypeContractDeploy deployerPrincipal) b
   \<and> variant_EventType (ContractDeployFilter EventTypeContractDeploy deployerPrincipal) = EventTypeContractDeploy
   \<and> map filter_Type (filters (AddContractDeploy deployerPrincipal (NewChainhookBuilder name network))) = [EventTypeContractDeploy]
   \<and> run_addX (CallAddContractCall contractID method sender) b = AddContractCall contractID method sender b
   \<and> AddContractCall contractID method sender b = AddFilter (ContractCallFilter EventTypeContractCall contractID method sender) b
   \<and> variant_EventType (ContractCallFilter EventTypeContractCall contractID method sender) = EventTypeContractCall
   \<and> map filter_Type (filters (AddContractCall contractID method sender (NewChainhookBuilder name network))) = [EventTypeContractCall]
   \<and> run_addX (CallAddContractLog contractID) b = AddContractLog contractID b
   \<and> AddContractLog contractID b = AddFilter (ContractLogFilter EventTypeContractLog contractID) b
   \<and> variant_EventType (ContractLogFilter EventTypeContractLog contractID) = EventTypeContractLog
   \<and> map filter_Type (filters (AddContractLog contractID (NewChainhookBuilder name network))) = [EventTypeContractLog]
   \<and> run_addX (CallAddBalanceChange p) b = AddBalanceChange p b
   \<and> AddBalanceChange p b = AddFilter (BalanceChangeFilter EventTypeBalanceChange p) b
   \<and> variant_EventType (BalanceChangeFilter EventTypeBalanceChange p) = EventTypeBalanceChange
   \<and> map filter_Type (filters (AddBalanceChange p (NewChainhookBuilder name network))) = [EventTypeBalanceChange]
   \<and> run_addX (CallAddCoinbase recipient) b = AddCoinbase recipient b
   \<and> AddCoinbase recipient b = AddFilter (CoinbaseFilter EventTypeCoinbase recipient) b
   \<and> variant_EventType (CoinbaseFilter EventTypeCoinbase recipient) = EventTypeCoinbase
   \<and> map filter_Type (filters (AddCoinbase recipient (NewChainhookBuilder name network))) = [EventTypeCoinbase]
   \<and> run_addX CallAddTenureChange b = AddTenureChange b
   \<and> AddTenureChange b = AddFilter (TenureChangeFilter EventTypeTenureChange) b
   \<and> variant_EventType (TenureChangeFilter EventTypeTenureChange) = EventTypeTenureChange
   \<and> map filter_Type (filters (AddTenureChange (NewChainhookBuilder name network))) = [EventTypeTenureChange]"
    by (simp add: addX_defs AddFilter_def NewChainhookBuilder_def)
  have 1: "\<exists>f. run_addX c b = AddFilter f b \<and> filter_Type f = variant_EventType f"
    using run_addX_wraps [of c b] by blast
  have 2: "{t. \<exists>c. \<exists>f. run_addX c ?b = AddFilter f ?b \<and> filter_Type f = t}
       = set event_type_constants - {EventTypeFTEvent, EventTypeNFTEvent, EventTypeSTXEvent}"
    (is "?L = ?R")
  proof
    show "?L \<subseteq> ?R"
    proof
      fix t assume "t \<in> ?L"
      then obtain c f where r: "run_addX c ?b = AddFilter f ?b" and t: "filter_Type f = t"
        by blast
      from run_addX_wraps [of c ?b] obtain g where g: "run_addX c ?b = AddFilter g ?b"
        and m: "filter_Type g \<in> ?R" by blast
      from e r g have "f = g" by (simp add: AddFilter_inj)
      with t m show "t \<in> ?R" by simp
    qed
    show "?R \<subseteq> ?L"
    proof
      fix t assume "t \<in> ?R"
      from addX_tags_cover [OF this] show "t \<in> ?L" by blast
    qed
  qed
  have 3: "card (set event_type_constants
             - {EventTypeFTEvent, EventTypeNFTEvent, EventTypeSTXEvent}) = 15"
    by (simp add: event_type_constants_def event_type_defs)
  from m 1 2 3 event_type_constants_distinct show ?thesis by (simp only: simp_thms)
qed

section \<open>Properties of the options builder\<close>

lemma decode_options_fields_append:
  "decode_options_fields (xs @ ys) p =
     (case decode_options_fields xs p of Inl e \<Rightarrow> Inl e | Inr q \<Rightarrow> decode_options_fields ys q)"
  by (induction xs arbitrary: p) (auto split: sum.splits)

lemma uint64_roundtrip: "decode_uint64_ptr (json_of_uint64 w) = Inr (Some w)"
proof -
  have "uint w < 2 ^ 64" using uint_bounded [of w] by simp
  then show ?thesis by (simp add: json_of_uint64_def)
qed

lemma decode_1: "EnableOnRegistration q = None \<Longrightarrow>
  decode_options_fields (omitempty_field ''enable_on_registration'' (map_option JBool v)) q
    = Inr (q\<lparr>EnableOnRegistration := v\<rparr>)"
  by (cases v; cases q) (simp_all add: omitempty_field_def decode_options_field_def)

lemma decode_2: "ExpireAfterEvaluations q = None \<Longrightarrow>
  decode_options_fields (omitempty_field ''expire_after_evaluations'' (map_option json_of_uint64 v)) q
    = Inr (q\<lparr>ExpireAfterEvaluations := v\<rparr>)"
  by (cases v; cases q) (simp_all add: omitempty_field_def decode_options_field_def uint64_roundtrip)

lemma decode_3: "ExpireAfterOccurrences q = None \<Longrightarrow>
  decode_options_fields (omitempty_field ''expire_after_occurrences'' (map_option json_of_uint64 v)) q
    = Inr (q\<lparr>ExpireAfterOccurrences := v\<rparr>)"
  by (cases v; cases q) (simp_all add: omitempty_field_def decode_options_field_def uint64_roundtrip)

lemma decode_4: "DecodeClarityValues q = None \<Longrightarrow>
  decode_options_fields (omitempty_field ''decode_clarity_values'' (map_option JBool v)) q
    = Inr (q\<lparr>DecodeClarityValues := v\<rparr>)"
  by (cases v; cases q) (simp_all add: omitempty_field_def decode_options_field_def)

lemma decode_5: "IncludeContractABI q = None \<Longrightarrow>
  decode_options_fields (omitempty_field ''include_contract_abi'' (map_option JBool v)) q
    = Inr (q\<lparr>IncludeContractABI := v\<rparr>)"
  by (cases v; cases q) (simp_all add: omitempty_field_def decode_options_field_def)

lemma decode_6: "IncludeContractSourceCode q = None \<Longrightarrow>
  decode_options_fields (omitempty_field ''include_contract_source_code'' (map_option JBool v)) q
    = Inr (q\<lparr>IncludeContractSourceCode := v\<rparr>)"
  by (cases v; cases q) (simp_all add: omitempty_field_def decode_options_field_def)

lemma decode_7: "IncludePostConditions q = None \<Longrightarrow>
  decode_options_fields (omitempty_field ''include_post_conditions'' (map_option JBool v)) q
    = Inr (q\<lparr>IncludePostConditions := v\<rparr>)"
  by (cases v; cases q) (simp_all add: omitempty_field_def decode_options_field_def)

lemma decode_8: "IncludeRawTransactions q = None \<Longrightarrow>
  decode_options_fields (omitempty_field ''include_raw_transactions'' (map_option JBool v)) q
    = Inr (q\<lparr>IncludeRawTransactions := v\<rparr>)"
  by (cases v; cases q) (simp_all add: omitempty_field_def decode_options_field_def)

lemma decode_9: "IncludeBlockSignatures q = None \<Longrightarrow>
  decode_options_fields (omitempty_field ''include_block_signatures'' (map_option JBool v)) q
    = Inr (q\<lparr>IncludeBlockSignatures := v\<rparr>)"
  by (cases v; cases q) (simp_all add: omitempty_field_def decode_options_field_def)

lemma decode_10: "IncludeBlockMetadata q = None \<Longrightarrow>
  decode_options_fields (omitempty_field ''include_block_metadata'' (map_option JBool v)) q
    = Inr (q\<lparr>IncludeBlockMetadata := v\<rparr>)"
  by (cases v; cases q) (simp_all add: omitempty_field_def decode_options_field_def)

lemma options_roundtrip_any:
  "Unmarshal_ChainhookOptions (Marshal_ChainhookOptions p) ChainhookOptions_zero = Inr p"
proof -
  have "decode_options_fields (Marshal_ChainhookOptions_fields p) ChainhookOptions_zero
        = Inr (ChainhookOptions_zero
            \<lparr>EnableOnRegistration := EnableOnRegistration p,
             ExpireAfterEvaluations := ExpireAfterEvaluations p,
             ExpireAfterOccurrences := ExpireAfterOccurrences p,
             DecodeClarityValues := DecodeClarityValues p,
             IncludeContractABI := IncludeContractABI p,
             IncludeContractSourceCode := IncludeContractSourceCode p,
             IncludePostConditions := IncludePostConditions p,
             IncludeRawTransactions := IncludeRawTransactions p,
             IncludeBlockSignatures := IncludeBlockSignatures p,
             IncludeBlockMetadata := IncludeBlockMetadata p\<rparr>)"
    unfolding Marshal_ChainhookOptions_fields_def
    by (simp add: decode_options_fields_append decode_1 decode_2 decode_3 decode_4 decode_5
        decode_6 decode_7 decode_8 decode_9 decode_10 ChainhookOptions_zero_def)
  also have "\<dots> = Inr p" by (cases p) (simp add: ChainhookOptions_zero_def)
  finally show ?thesis by (simp add: Marshal_ChainhookOptions_def)
qed


lemma map_of_omitempty_append:
  "map_of (omitempty_field k v @ rest) key = (if key = k \<and> v \<noteq> None then v else map_of rest key)"
  by (cases v) (simp_all add: omitempty_field_def)

lemma map_of_omitempty_last:
  "map_of (omitempty_field k v) key = (if key = k then v else None)"
  by (cases v) (simp_all add: omitempty_field_def)

lemma options_key_present:
  "object_lookup (Marshal_ChainhookOptions p) ''enable_on_registration'' = map_option JBool (EnableOnRegistration p)
   \<and> object_lookup (Marshal_ChainhookOptions p) ''expire_after_evaluations'' = map_option json_of_uint64 (ExpireAfterEvaluations p)
   \<and> object_lookup (Marshal_ChainhookOptions p) ''expire_after_occurrences'' = map_option json_of_uint64 (ExpireAfterOccurrences p)
   \<and> object_lookup (Marshal_ChainhookOptions p) ''decode_clarity_values'' = map_option JBool (DecodeClarityValues p)
   \<and> object_lookup (Marshal_ChainhookOptions p) ''include_contract_abi'' = map_option JBool (IncludeContractABI p)
   \<and> object_lookup (Marshal_ChainhookOptions p) ''include_contract_source_code'' = map_option JBool (IncludeContractSourceCode p)
   \<and> object_lookup (Marshal_ChainhookOptions p) ''include_post_conditions'' = map_option JBool (IncludePostConditions p)
   \<and> object_lookup (Marshal_ChainhookOptions p) ''include_raw_transactions'' = map_option JBool (IncludeRawTransactions p)
   \<and> object_lookup (Marshal_ChainhookOptions p) ''include_block_signatures'' = map_option JBool (IncludeBlockSignatures p)
   \<and> object_lookup (Marshal_ChainhookOptions p) ''include_block_metadata'' = map_option JBool (IncludeBlockMetadata p)"
  by (simp add: Marshal_ChainhookOptions_def Marshal_ChainhookOptions_fields_def
      map_of_omitempty_append map_of_omitempty_last del: map_of_append)

lemma keys_omitempty: "fst ` set (omitempty_field k v) \<subseteq> {k}"
  by (cases v) (simp_all add: omitempty_field_def)

lemma options_keys_known:
  "set (object_keys (Marshal_ChainhookOptions p))
     \<subseteq> {''enable_on_registration'', ''expire_after_evaluations'',
         ''expire_after_occurrences'', ''decode_clarity_values'', ''include_contract_abi'',
         ''include_contract_source_code'', ''include_post_conditions'',
         ''include_raw_transactions'', ''include_block_signatures'',
         ''include_block_metadata''}"
  unfolding Marshal_ChainhookOptions_def Marshal_ChainhookOptions_fields_def
  using keys_omitempty
  by (simp add: image_Un) blast

lemma run_options_calls_append:
  "run_options_calls (cs @ ds) b = run_options_calls ds (run_options_calls cs b)"
  by (induction cs arbitrary: b) simp_all

lemmas options_setter_defs =
  OptionsBuilder_EnableOnRegistration_def OptionsBuilder_ExpireAfterEvaluations_def OptionsBuilder_ExpireAfterOccurrences_def OptionsBuilder_DecodeClarityValues_def OptionsBuilder_IncludeContractABI_def OptionsBuilder_IncludeContractSourceCode_def OptionsBuilder_IncludePostConditions_def OptionsBuilder_IncludeRawTransactions_def OptionsBuilder_IncludeBlockSignatures_def OptionsBuilder_IncludeBlockMetadata_def

text \<open>
  A setter call assigns its own field and leaves the nine others; a sequence of calls
  leaves in each field the last argument of its setter.
\<close>

lemma run_options_call_EnableOnRegistration:
  "EnableOnRegistration (opts (run_options_call c b)) =
     (case arg_EnableOnRegistration c of Some v \<Rightarrow> Some v | None \<Rightarrow> EnableOnRegistration (opts b))"
  by (cases c) (simp_all add: options_setter_defs)

lemma run_options_calls_EnableOnRegistration:
  "EnableOnRegistration (opts (run_options_calls cs b)) =
     (case last_argument arg_EnableOnRegistration cs of Some v \<Rightarrow> Some v | None \<Rightarrow> EnableOnRegistration (opts b))"
  by (induction cs arbitrary: b) (simp_all add: run_options_call_EnableOnRegistration split: option.splits)

lemma run_options_call_ExpireAfterEvaluations:
  "ExpireAfterEvaluations (opts (run_options_call c b)) =
     (case arg_ExpireAfterEvaluations c of Some v \<Rightarrow> Some v | None \<Rightarrow> ExpireAfterEvaluations (opts b))"
  by (cases c) (simp_all add: options_setter_defs)

lemma run_options_calls_ExpireAfterEvaluations:
  "ExpireAfterEvaluations (opts (run_options_calls cs b)) =
     (case last_argument arg_ExpireAfterEvaluations cs of Some v \<Rightarrow> Some v | None \<Rightarrow> ExpireAfterEvaluations (opts b))"
  by (induction cs arbitrary: b) (simp_all add: run_options_call_ExpireAfterEvaluations split: option.splits)

lemma run_options_call_ExpireAfterOccurrences:
  "ExpireAfterOccurrences (opts (run_options_call c b)) =
     (case arg_ExpireAfterOccurrences c of Some v \<Rightarrow> Some v | None \<Rightarrow> ExpireAfterOccurrences (opts b))"
  by (cases c) (simp_all add: options_setter_defs)

lemma run_options_calls_ExpireAfterOccurrences:
  "ExpireAfterOccurrences (opts (run_options_calls cs b)) =
     (case last_argument arg_ExpireAfterOccurrences cs of Some v \<Rightarrow> Some v | None \<Rightarrow> ExpireAfterOccurrences (opts b))"
  by (induction cs arbitrary: b) (simp_all add: run_options_call_ExpireAfterOccurrences split: option.splits)

lemma run_options_call_DecodeClarityValues:
  "DecodeClarityValues (opts (run_options_call c b)) =
     (case arg_DecodeClarityValues c of Some v \<Rightarrow> Some v | None \<Rightarrow> DecodeClarityValues (opts b))"
  by (cases c) (simp_all add: options_setter_defs)

lemma run_options_calls_DecodeClarityValues:
  "DecodeClarityValues (opts (run_options_calls cs b)) =
     (case last_argument arg_DecodeClarityValues cs of Some v \<Rightarrow> Some v | None \<Rightarrow> DecodeClarityValues (opts b))"
  by (induction cs arbitrary: b) (simp_all add: run_options_call_DecodeClarityValues split: option.splits)

lemma run_options_call_IncludeContractABI:
  "IncludeContractABI (opts (run_options_call c b)) =
     (case arg_IncludeContractABI c of Some v \<Rightarrow> Some v | None \<Rightarrow> IncludeContractABI (opts b))"
  by (cases c) (simp_all add: options_setter_defs)

lemma run_options_calls_IncludeContractABI:
  "IncludeContractABI (opts (run_options_calls cs b)) =
     (case last_argument arg_IncludeContractABI cs of Some v \<Rightarrow> Some v | None \<Rightarrow> IncludeContractABI (opts b))"
  by (induction cs arbitrary: b) (simp_all add: run_options_call_IncludeContractABI split: option.splits)

lemma run_options_call_IncludeContractSourceCode:
  "IncludeContractSourceCode (opts (run_options_call c b)) =
     (case arg_IncludeContractSourceCode c of Some v \<Rightarrow> Some v | None \<Rightarrow> IncludeContractSourceCode (opts b))"
  by (cases c) (simp_all add: options_setter_defs)

lemma run_options_calls_IncludeContractSourceCode:
  "IncludeContractSourceCode (opts (run_options_calls cs b)) =
     (case last_argument arg_IncludeContractSourceCode cs of Some v \<Rightarrow> Some v | None \<Rightarrow> IncludeContractSourceCode (opts b))"
  by (induction cs arbitrary: b) (simp_all add: run_options_call_IncludeContractSourceCode split: option.splits)

lemma run_options_call_IncludePostConditions:
  "IncludePostConditions (opts (run_options_call c b)) =
     (case arg_IncludePostConditions c of Some v \<Rightarrow> Some v | None \<Rightarrow> IncludePostConditions (opts b))"
  by (cases c) (simp_all add: options_setter_defs)

lemma run_options_calls_IncludePostConditions:
  "IncludePostConditions (opts (run_options_calls cs b)) =
     (case last_argument arg_IncludePostConditions cs of Some v \<Rightarrow> Some v | None \<Rightarrow> IncludePostConditions (opts b))"
  by (induction cs arbitrary: b) (simp_all add: run_options_call_IncludePostConditions split: option.splits)

lemma run_options_call_IncludeRawTransactions:
  "IncludeRawTransactions (opts (run_options_call c b)) =
     (case arg_IncludeRawTransactions c of Some v \<Rightarrow> Some v | None \<Rightarrow> IncludeRawTransactions (opts b))"
  by (cases c) (simp_all add: options_setter_defs)

lemma run_options_calls_IncludeRawTransactions:
  "IncludeRawTransactions (opts (run_options_calls cs b)) =
     (case last_argument arg_IncludeRawTransactions cs of Some v \<Rightarrow> Some v | None \<Rightarrow> IncludeRawTransactions (opts b))"
  by (induction cs arbitrary: b) (simp_all add: run_options_call_IncludeRawTransactions split: option.splits)

lemma run_options_call_IncludeBlockSignatures:
  "IncludeBlockSignatures (opts (run_options_call c b)) =
     (case arg_IncludeBlockSignatures c of Some v \<Rightarrow> Some v | None \<Rightarrow> IncludeBlockSignatures (opts b))"
  by (cases c) (simp_all add: options_setter_defs)

lemma run_options_calls_IncludeBlockSignatures:
  "IncludeBlockSignatures (opts (run_options_calls cs b)) =
     (case last_argument arg_IncludeBlockSignatures cs of Some v \<Rightarrow> Some v | None \<Rightarrow> IncludeBlockSignatures (opts b))"
  by (induction cs arbitrary: b) (simp_all add: run_options_call_IncludeBlockSignatures split: option.splits)

lemma run_options_call_IncludeBlockMetadata:
  "IncludeBlockMetadata (opts (run_options_call c b)) =
     (case arg_IncludeBlockMetadata c of Some v \<Rightarrow> Some v | None \<Rightarrow> IncludeBlockMetadata (opts b))"
  by (cases c) (simp_all add: options_setter_defs)

lemma run_options_calls_IncludeBlockMetadata:
  "IncludeBlockMetadata (opts (run_options_calls cs b)) =
     (case last_argument arg_IncludeBlockMetadata cs of Some v \<Rightarrow> Some v | None \<Rightarrow> IncludeBlockMetadata (opts b))"
  by (induction cs arbitrary: b) (simp_all add: run_options_call_IncludeBlockMetadata split: option.splits)

lemma built_options_fields:
  "EnableOnRegistration (OptionsBuilder_Build (run_options_calls cs NewChainhookOptionsBuilder))
       = last_argument arg_EnableOnRegistration cs
   \<and> ExpireAfterEvaluations (OptionsBuilder_Build (run_options_calls cs NewChainhookOptionsBuilder))
       = last_argument arg_ExpireAfterEvaluations cs
   \<and> ExpireAfterOccurrences (OptionsBuilder_Build (run_options_calls cs NewChainhookOptionsBuilder))
       = last_argument arg_ExpireAfterOccurrences cs
   \<and> DecodeClarityValues (OptionsBuilder_Build (run_options_calls cs NewChainhookOptionsBuilder))
       = last_argument arg_DecodeClarityValues cs
   \<and> IncludeContractABI (OptionsBuilder_Build (run_options_calls cs NewChainhookOptionsBuilder))
       = last_argument arg_IncludeContractABI cs
   \<and> IncludeContractSourceCode (OptionsBuilder_Build (run_options_calls cs NewChainhookOptionsBuilder))
       = last_argument arg_IncludeContractSourceCode cs
   \<and> IncludePostConditions (OptionsBuilder_Build (run_options_calls cs NewChainhookOptionsBuilder))
       = last_argument arg_IncludePostConditions cs
   \<and> IncludeRawTransactions (OptionsBuilder_Build (run_options_calls cs NewChainhookOptionsBuilder))
       = last_argument arg_IncludeRawTransactions cs
   \<and> IncludeBlockSignatures (OptionsBuilder_Build (run_options_calls cs NewChainhookOptionsBuilder))
       = last_argument arg_IncludeBlockSignatures cs
   \<and> IncludeBlockMetadata (OptionsBuilder_Build (run_options_calls cs NewChainhookOptionsBuilder))
       = last_argument arg_IncludeBlockMetadata cs"
  by (simp add: OptionsBuilder_Build_def run_options_calls_EnableOnRegistration run_options_calls_ExpireAfterEvaluations run_options_calls_ExpireAfterOccurrences run_options_calls_DecodeClarityValues run_options_calls_IncludeContractABI run_options_calls_IncludeContractSourceCode run_options_calls_IncludePostConditions run_options_calls_IncludeRawTransactions run_options_calls_IncludeBlockSignatures run_options_calls_IncludeBlockMetadata
      NewChainhookOptionsBuilder_def ChainhookOptions_zero_def split: option.splits)

text \<open>
  Claim C7 speaks of the 9 option flags of the options builder. \<open>ChainhookOptions\<close> has
  ten fields and the builder has a setter for each: a chain that calls the ten setters
  builds options that serialize to an object of ten keys, not nine.
\<close>

theorem nine_option_flags_counterexample:
  "Marshal_ChainhookOptions (OptionsBuilder_Build
      (run_options_calls
         [SetEnableOnRegistration False, SetExpireAfterEvaluations 0,
          SetExpireAfterOccurrences 0, SetDecodeClarityValues False,
          SetIncludeContractABI False, SetIncludeContractSourceCode False,
          SetIncludePostConditions False, SetIncludeRawTransactions False,
          SetIncludeBlockSignatures False, SetIncludeBlockMetadata False]
         NewChainhookOptionsBuilder))
   = JObject
       [(''enable_on_registration'', JBool False), (''expire_after_evaluations'', JNumber 0),
        (''expire_after_occurrences'', JNumber 0), (''decode_clarity_values'', JBool False),
        (''include_contract_abi'', JBool False),
        (''include_contract_source_code'', JBool False),
        (''include_post_conditions'', JBool False),
        (''include_raw_transactions'', JBool False),
        (''include_block_signatures'', JBool False),
        (''include_block_metadata'', JBool False)]
   \<and> length (object_keys (Marshal_ChainhookOptions (OptionsBuilder_Build
      (run_options_calls
         [SetEnableOnRegistration False, SetExpireAfterEvaluations 0,
          SetExpireAfterOccurrences 0, SetDecodeClarityValues False,
          SetIncludeContractABI False, SetIncludeContractSourceCode False,
          SetIncludePostConditions False, SetIncludeRawTransactions False,
          SetIncludeBlockSignatures False, SetIncludeBlockMetadata False]
         NewChainhookOptionsBuilder)))) \<noteq> 9"
  by (simp add: OptionsBuilder_Build_def NewChainhookOptionsBuilder_def options_setter_defs
        ChainhookOptions_zero_def Marshal_ChainhookOptions_def json_of_uint64_def
        Marshal_ChainhookOptions_fields_def omitempty_field_def)

text \<open>
  Claim C7, amended. \<open>Build\<close> of the options builder has no error result: after any
  sequence of setter calls it returns the options gathered. Each of the 10 option
  flags of these options holds the argument of the last call of its setter in the
  sequence, and is unset when its setter was not called: a flag set earlier is kept by
  the later calls of other setters, and a flag never set stays unset. The options
  survive a JSON round trip: decoding what \<open>json.Marshal\<close> writes, into a zero
  \<open>ChainhookOptions\<close>, gives back exactly the options built. In the serialized object
  each of the ten keys holds the last argument of its setter (\<open>false\<close> and \<open>0\<close> are
  written as such) and is absent when the setter was not called; the object has no
  other key. A setter called last
  leaves its own value in its own field, and the options of a fresh builder serialize
  to the empty object.
\<close>

theorem options_builder_roundtrip:
  "(let p = OptionsBuilder_Build (run_options_calls cs NewChainhookOptionsBuilder) in
      Unmarshal_ChainhookOptions (Marshal_ChainhookOptions p) ChainhookOptions_zero = Inr p
    \<and> EnableOnRegistration p = last_argument arg_EnableOnRegistration cs
    \<and> ExpireAfterEvaluations p = last_argument arg_ExpireAfterEvaluations cs
    \<and> ExpireAfterOccurrences p = last_argument arg_ExpireAfterOccurrences cs
    \<and> DecodeClarityValues p = last_argument arg_DecodeClarityValues cs
    \<and> IncludeContractABI p = last_argument arg_IncludeContractABI cs
    \<and> IncludeContractSourceCode p = last_argument arg_IncludeContractSourceCode cs
    \<and> IncludePostConditions p = last_argument arg_IncludePostConditions cs
    \<and> IncludeRawTransactions p = last_argument arg_IncludeRawTransactions cs
    \<and> IncludeBlockSignatures p = last_argument arg_IncludeBlockSignatures cs
    \<and> IncludeBlockMetadata p = last_argument arg_IncludeBlockMetadata cs
    \<and> object_lookup (Marshal_ChainhookOptions p) ''enable_on_registration''
        = map_option JBool (last_argument arg_EnableOnRegistration cs)
    \<and> object_lookup (Marshal_ChainhookOptions p) ''expire_after_evaluations''
        = map_option json_of_uint64 (last_argument arg_ExpireAfterEvaluations cs)
    \<and> object_lookup (Marshal_ChainhookOptions p) ''expire_after_occurrences''
        = map_option json_of_uint64 (last_argument arg_ExpireAfterOccurrences cs)
    \<and> object_lookup (Marshal_ChainhookOptions p) ''decode_clarity_values''
        = map_option JBool (last_argument arg_DecodeClarityValues cs)
    \<and> object_lookup (Marshal_ChainhookOptions p) ''include_contract_abi''
        = map_option JBool (last_argument arg_IncludeContractABI cs)
    \<and> object_lookup (Marshal_ChainhookOptions p) ''include_contract_source_code''
        = map_option JBool (last_argument arg_IncludeContractSourceCode cs)
    \<and> object_lookup (Marshal_ChainhookOptions p) ''include_post_conditions''
        = map_option JBool (last_argument arg_IncludePostConditions cs)
    \<and> object_lookup (Marshal_ChainhookOptions p) ''include_raw_transactions''
        = map_option JBool (last_argument arg_IncludeRawTransactions cs)
    \<and> object_lookup (Marshal_ChainhookOptions p) ''include_block_signatures''
        = map_option JBool (last_argument arg_IncludeBlockSignatures cs)
    \<and> object_lookup (Marshal_ChainhookOptions p) ''include_block_metadata''
        = map_option JBool (last_argument arg_IncludeBlockMetadata cs)
    \<and> set (object_keys (Marshal_ChainhookOptions p))
         \<subseteq> {''enable_on_registration'', ''expire_after_evaluations'',
             ''expire_after_occurrences'', ''decode_clarity_values'',
             ''include_contract_abi'', ''include_contract_source_code'',
             ''include_post_conditions'', ''include_raw_transactions'',
             ''include_block_signatures'', ''include_block_metadata''}
    \<and> (let q = OptionsBuilder_Build (run_options_calls (cs @ [c]) NewChainhookOptionsBuilder) in
         case c of
           SetEnableOnRegistration v \<Rightarrow> EnableOnRegistration q = Some v
         | SetExpireAfterEvaluations v \<Rightarrow> ExpireAfterEvaluations q = Some v
         | SetExpireAfterOccurrences v \<Rightarrow> ExpireAfterOccurrences q = Some v
         | SetDecodeClarityValues v \<Rightarrow> DecodeClarityValues q = Some v
         | SetIncludeContractABI v \<Rightarrow> IncludeContractABI q = Some v
         | SetIncludeContractSourceCode v \<Rightarrow> IncludeContractSourceCode q = Some v
         | SetIncludePostConditions v \<Rightarrow> IncludePostConditions q = Some v
         | SetIncludeRawTransactions v \<Rightarrow> IncludeRawTransactions q = Some v
         | SetIncludeBlockSignatures v \<Rightarrow> IncludeBlockSignatures q = Some v
         | SetIncludeBlockMetadata v \<Rightarrow> IncludeBlockMetadata q = Some v))
   \<and> object_keys (Marshal_ChainhookOptions (OptionsBuilder_Build NewChainhookOptionsBuilder)) = []"
proof -
  let ?p = "OptionsBuilder_Build (run_options_calls cs NewChainhookOptionsBuilder)"
  have a: "Unmarshal_ChainhookOptions (Marshal_ChainhookOptions ?p) ChainhookOptions_zero = Inr ?p"
    by (rule options_roundtrip_any)
  note f = built_options_fields [of cs]
  note k = options_key_present [of ?p]
  note ks = options_keys_known [of ?p]
  have c: "(let q = OptionsBuilder_Build (run_options_calls (cs @ [c]) NewChainhookOptionsBuilder) in
         case c of
           SetEnableOnRegistration v \<Rightarrow> EnableOnRegistration q = Some v
         | SetExpireAfterEvaluations v \<Rightarrow> ExpireAfterEvaluations q = Some v
         | SetExpireAfterOccurrences v \<Rightarrow> ExpireAfterOccurrences q = Some v
         | SetDecodeClarityValues v \<Rightarrow> DecodeClarityValues q = Some v
         | SetIncludeContractABI v \<Rightarrow> IncludeContractABI q = Some v
         | SetIncludeContractSourceCode v \<Rightarrow> IncludeContractSourceCode q = Some v
         | SetIncludePostConditions v \<Rightarrow> IncludePostConditions q = Some v
         | SetIncludeRawTransactions v \<Rightarrow> IncludeRawTransactions q = Some v
         | SetIncludeBlockSignatures v \<Rightarrow> IncludeBlockSignatures q = Some v
         | SetIncludeBlockMetadata v \<Rightarrow> IncludeBlockMetadata q = Some v)"
    by (cases c) (simp_all add: run_options_calls_append OptionsBuilder_Build_def options_setter_defs)
  have d: "object_keys (Marshal_ChainhookOptions (OptionsBuilder_Build NewChainhookOptionsBuilder)) = []"
    by (simp add: OptionsBuilder_Build_def NewChainhookOptionsBuilder_def
        ChainhookOptions_zero_def Marshal_ChainhookOptions_def
        Marshal_ChainhookOptions_fields_def omitempty_field_def)
  show ?thesis
    unfolding Let_def
    using a c d f k ks by (simp add: Let_def)
qed

section \<open>Properties of the transport client\<close>

subsection \<open>The query string of the list operation\<close>

lemma digit_not_escaped: "n < 10 \<Longrightarrow> escape_byte (''0123456789'' ! n) = [''0123456789'' ! n]"
proof -
  assume a: "n < 10"
  have "list_all (\<lambda>c. escape_byte c = [c]) ''0123456789''"
    by (simp add: escape_byte_def shouldEscape_def)
  then have "\<forall>n<length ''0123456789''. escape_byte (''0123456789'' ! n) = [''0123456789'' ! n]"
    unfolding list_all_length .
  with a show ?thesis by simp
qed

lemma QueryEscape_append: "QueryEscape (s @ t) = QueryEscape s @ QueryEscape t"
  by (simp add: QueryEscape_def)

lemma QueryEscape_single: "QueryEscape [c] = escape_byte c"
  by (simp add: QueryEscape_def)

lemma QueryEscape_FormatUint: "QueryEscape (FormatUint n) = FormatUint n"
proof (induction n rule: FormatUint.induct)
  case (1 n)
  show ?case
  proof (cases "n < 10")
    case True
    then have f: "FormatUint n = [''0123456789'' ! n]"
      by (subst FormatUint.simps) simp
    show ?thesis
      unfolding f QueryEscape_single using digit_not_escaped [OF True] .
  next
    case False
    have m: "n mod 10 < 10" by simp
    from False 1 have ih: "QueryEscape (FormatUint (n div 10)) = FormatUint (n div 10)" by blast
    have f: "FormatUint n = FormatUint (n div 10) @ [''0123456789'' ! (n mod 10)]"
      using False by (subst FormatUint.simps) simp
    show ?thesis
      unfolding f QueryEscape_append QueryEscape_single ih
      using digit_not_escaped [OF m] by simp
  qed
qed

lemma sorted_offset_limit: "sorted_keys [''offset'', ''limit''] = [''limit'', ''offset'']"
  by simp

lemma QueryEscape_keys: "QueryEscape ''limit'' = ''limit''" "QueryEscape ''offset'' = ''offset''"
  by (simp_all add: QueryEscape_def escape_byte_def shouldEscape_def)

lemma GetChainhooks_path_sorted:
  "GetChainhooks_path (Some p) =
     ''/chainhooks/me?limit='' @ FormatUint (unat (Limit p))
       @ ''&offset='' @ FormatUint (unat (Offset p))"
  by (simp add: GetChainhooks_path_def Values_Encode_def EndpointChainhooks_def
      QueryEscape_FormatUint QueryEscape_keys Let_def)

lemma FormatUint_0: "FormatUint 0 = ''0''"
  by (subst FormatUint.simps) simp

lemma FormatUint_10: "FormatUint 10 = ''10''"
  by (simp add: FormatUint.simps)


text \<open>
  Claim C5 says that \<open>NewPaginationOptions(0, 10)\<close> gives the query string
  \<open>offset=0&limit=10\<close>. \<open>GetChainhooks\<close> builds the query with \<open>url.Values.Encode\<close>, which
  writes the keys in sorted order, so the path it requests is not the endpoint followed
  by \<open>?offset=0&limit=10\<close>.
\<close>

theorem pagination_query_counterexample:
  "GetChainhooks_path (Some (NewPaginationOptions 0 10)) \<noteq> ''/chainhooks/me?offset=0&limit=10''"
  by (simp add: GetChainhooks_path_sorted NewPaginationOptions_def FormatUint_0 FormatUint_10)

text \<open>
  Claim C5, amended. \<open>NewPaginationOptions(0, 10)\<close> passed to the list operation
  serializes into the query string \<open>limit=10&offset=0\<close> exactly, appended to the
  endpoint after \<open>?\<close>: the keys come in sorted order, \<open>limit\<close> before \<open>offset\<close>.
\<close>

theorem pagination_query_sorted:
  "GetChainhooks_path (Some (NewPaginationOptions 0 10)) = ''/chainhooks/me?limit=10&offset=0''"
  by (simp add: GetChainhooks_path_sorted NewPaginationOptions_def FormatUint_0 FormatUint_10)

subsection \<open>The base URL\<close>

lemma TrimSuffix_slash:
  "TrimSuffix s ''/'' = (if s \<noteq> [] \<and> last s = CHR ''/'' then butlast s else s)"
proof (cases "s = []")
  case True
  then show ?thesis by (simp add: TrimSuffix_def HasSuffix_def)
next
  case False
  then obtain t x where s: "s = t @ [x]" by (metis rev_exhaust)
  then show ?thesis by (simp add: TrimSuffix_def HasSuffix_def)
qed

text \<open>
  What the constructor stores, and where \<open>request\<close> uses it: the URL handed to
  \<open>http.NewRequestWithContext\<close> is the stored base URL followed by the path.
\<close>

lemma NewClientWithConfig_baseURL:
  "baseURL (NewClientWithConfig (Some cfg)) =
     TrimSuffix (if BaseURL cfg = [] then ChainhooksBaseURLs NetworkMainnet else BaseURL cfg) ''/''"
  by (simp add: NewClientWithConfig_def Let_def)

lemma request_appends_path:
  "http_NewRequest rt method (baseURL c @ path) = Inl e \<Longrightarrow>
   request rt c method path None unmarshal result wire
     = (Some (Errorf ''failed to create request: '' e), result, wire)"
  by (simp add: request_def)

text \<open>
  Claim C9 says that the base URL stored in the client never ends with a slash.
  \<open>NewClientWithConfig\<close> removes one trailing slash with \<open>strings.TrimSuffix\<close>; a base
  URL that ends with two slashes is stored with one of them left.
\<close>

theorem double_slash_kept:
  "baseURL (NewClient ''https://api.example.com//'') = ''https://api.example.com/''
   \<and> last (baseURL (NewClient ''https://api.example.com//'')) = CHR ''/''"
  by (simp add: NewClient_def NewClientWithConfig_def ClientConfig_zero_def TrimSuffix_def
      HasSuffix_def Let_def)

subsection \<open>Checks before the network\<close>

text \<open>
  Claim C3. The emptiness checks of the operations that take a uuid, a definition or a
  bulk request run before any network access: with an empty uuid, a nil definition, a
  nil request or a bulk request with no uuids, no webhook URL and no statuses, the
  operation returns a \<open>ValidationError\<close> naming the field (\<open>uuid\<close>, \<open>definition\<close> or
  \<open>request\<close>) and the wire is as it was, so no request was handed to the HTTP client,
  whatever the runtime and the client are. \<open>GetChainhook\<close> on the empty uuid is the
  first case.
\<close>

theorem validation_before_network:
  "GetChainhook rt c [] wire = (Inl (ValidationError ''uuid'' ''uuid cannot be empty''), wire)
   \<and> UpdateChainhook rt c [] def wire = (Inl (ValidationError ''uuid'' ''uuid cannot be empty''), wire)
   \<and> UpdateChainhook rt c (x # uuid) None wire
       = (Inl (ValidationError ''definition'' ''definition cannot be nil''), wire)
   \<and> RegisterChainhook rt c None wire
       = (Inl (ValidationError ''definition'' ''definition cannot be nil''), wire)
   \<and> EnableChainhook rt c [] enabled wire
       = (Some (ValidationError ''uuid'' ''uuid cannot be empty''), wire)
   \<and> DeleteChainhook rt c [] wire = (Some (ValidationError ''uuid'' ''uuid cannot be empty''), wire)
   \<and> EvaluateChainhook rt c [] blockHeight wire
       = (Some (ValidationError ''uuid'' ''uuid cannot be empty''), wire)
   \<and> BulkEnableChainhooks rt c None wire
       = (Inl (ValidationError ''request'' ''request cannot be nil''), wire)
   \<and> BulkEnableChainhooks rt c
         (Some \<lparr>Enabled = enabled, UUIDs = [], WebhookURL = None, Statuses = []\<rparr>) wire
       = (Inl (ValidationError ''request''
                ''at least one filter (uuids, webhook_url, or statuses) must be provided''), wire)"
  by (simp add: GetChainhook_def UpdateChainhook_def RegisterChainhook_def EnableChainhook_def
      DeleteChainhook_def EvaluateChainhook_def BulkEnableChainhooks_def)

subsection \<open>The status of the response\<close>

text \<open>
  Claim C4. When the response has status 204, \<open>request\<close> returns no error and makes no
  decode attempt, also when a destination was supplied: the destination is returned
  exactly as it was passed, whatever the decoder and the body of the response are. The
  hypotheses say that the call got as far as a response: the body was encoded, the
  URL accepted and the request answered.
\<close>

theorem no_content_leaves_destination:
  assumes "(case body of None \<Rightarrow> Inr None | Some b \<Rightarrow> map_sum id Some (json_Marshal rt b))
             = Inr bodyReader"
    and "http_NewRequest rt method (baseURL c @ path) = Inr url"
    and "http_Do rt (prepare_request rt c method url bodyReader) = Inr resp"
    and "StatusCode resp = 204"
  shows "request rt c method path body unmarshal result wire
           = (None, result, wire @ [prepare_request rt c method url bodyReader])"
  using assms by (simp add: request_def Let_def)


text \<open>
  \<open>GET /chainhooks/me/u1\<close> answered with 204 and a body: the destination keeps its zero
  value, although the decoder of the example runtime would have stored the body in it.
\<close>

theorem no_content_leaves_destination_witness:
  "StatusCode no_content_response = 204
   \<and> resp_Body no_content_response \<noteq> []
   \<and> request (example_runtime no_content_response (\<lambda>b. None))
         (NewClient ''https://api.example.com'') MethodGET (EndpointChainhook ''u1'') None
         (Unmarshal_Chainhook (example_runtime no_content_response (\<lambda>b. None)))
         (Some Chainhook_zero) []
       = (None, Some Chainhook_zero,
          [prepare_request (example_runtime no_content_response (\<lambda>b. None))
             (NewClient ''https://api.example.com'') MethodGET
             ''https://api.example.com/chainhooks/me/u1'' None])"
proof -
  let ?rt = "example_runtime no_content_response (\<lambda>b. None)"
  let ?c = "NewClient ''https://api.example.com''"
  let ?url = "''https://api.example.com/chainhooks/me/u1''"
  have b: "baseURL ?c = ''https://api.example.com''"
    by (simp add: NewClient_def NewClientWithConfig_def ClientConfig_zero_def TrimSuffix_def
        HasSuffix_def Let_def)
  have h1: "(case None of None \<Rightarrow> Inr None
             | Some b \<Rightarrow> map_sum id Some (json_Marshal ?rt b)) = Inr None"
    by simp
  have h2: "http_NewRequest ?rt MethodGET (baseURL ?c @ EndpointChainhook ''u1'') = Inr ?url"
    by (simp add: b example_runtime_def EndpointChainhook_def)
  have h3: "http_Do ?rt (prepare_request ?rt ?c MethodGET ?url None) = Inr no_content_response"
    by (simp add: example_runtime_def)
  have h4: "StatusCode no_content_response = 204"
    by (simp add: no_content_response_def)
  have h5: "resp_Body no_content_response \<noteq> []"
    by (simp add: no_content_response_def)
  from no_content_leaves_destination
         [OF h1 h2 h3 h4, of "Unmarshal_Chainhook ?rt" "Some Chainhook_zero" "[]"] h4 h5
  show ?thesis by simp
qed

text \<open>
  Claim C2. When the response has a status of 400 or more, \<open>request\<close> returns an
  \<open>HttpError\<close> that holds the status code, the URL and the method of the request, the
  headers of the response and the body read. Its message is the \<open>message\<close> key of the
  body decoded as a JSON object when that key holds a string, else the \<open>error\<close> key when
  that holds a string, else the body as text (an empty body, a body that does not
  decode, and an object with neither key as a string). The error is an \<open>HttpError\<close> for
  \<open>IsHttpError\<close>, \<open>GetHttpStatusCode\<close> reads its status, and \<open>IsNotFound\<close> holds of it
  exactly when the status is 404. The hypotheses say that the call got as far as a
  response.
\<close>

theorem http_error_from_status:
  assumes "(case body of None \<Rightarrow> Inr None | Some b \<Rightarrow> map_sum id Some (json_Marshal rt b))
             = Inr bodyReader"
    and "http_NewRequest rt method (baseURL c @ path) = Inr url"
    and "http_Do rt (prepare_request rt c method url bodyReader) = Inr resp"
    and "StatusCode resp \<ge> 400"
  shows "(let req = prepare_request rt c method url bodyReader;
              e = newHttpError rt resp req;
              msg = error_Body e
          in request rt c method path body unmarshal result wire
               = (Some e, result, wire @ [req])
           \<and> e = HttpError (StatusCode resp) url method (resp_Header resp) msg
                    (resp_Body resp) None
           \<and> (\<forall>m s. resp_Body resp \<noteq> []
                   \<and> json_Unmarshal_object rt (resp_Body resp) = Some m
                   \<and> m ''message'' = Some (JString s) \<longrightarrow> msg = s)
           \<and> (\<forall>m s. resp_Body resp \<noteq> []
                   \<and> json_Unmarshal_object rt (resp_Body resp) = Some m
                   \<and> (\<forall>t. m ''message'' \<noteq> Some (JString t))
                   \<and> m ''error'' = Some (JString s) \<longrightarrow> msg = s)
           \<and> (resp_Body resp = [] \<or> json_Unmarshal_object rt (resp_Body resp) = None
                \<or> (\<exists>m. json_Unmarshal_object rt (resp_Body resp) = Some m
                      \<and> (\<forall>t. m ''message'' \<noteq> Some (JString t))
                      \<and> (\<forall>t. m ''error'' \<noteq> Some (JString t)))
                \<longrightarrow> msg = resp_Body resp)
           \<and> IsHttpError (Some e)
           \<and> GetHttpStatusCode (Some e) = (StatusCode resp, True)
           \<and> IsNotFound (Some e) = (StatusCode resp = 404))"
proof -
  let ?req = "prepare_request rt c method url bodyReader"
  let ?e = "newHttpError rt resp ?req"
  let ?msg = "error_Body ?e"
  have r: "request rt c method path body unmarshal result wire
           = (Some ?e, result, wire @ [?req])"
    using assms by (simp add: request_def Let_def)
  have e: "?e = HttpError (StatusCode resp) url method (resp_Header resp) ?msg
                  (resp_Body resp) None"
    by (simp add: newHttpError_def Let_def prepare_request_def)
  have m1: "\<forall>m s. resp_Body resp \<noteq> [] \<and> json_Unmarshal_object rt (resp_Body resp) = Some m
                 \<and> m ''message'' = Some (JString s) \<longrightarrow> ?msg = s"
    by (auto simp add: newHttpError_def Let_def)
  have m2: "\<forall>m s. resp_Body resp \<noteq> [] \<and> json_Unmarshal_object rt (resp_Body resp) = Some m
                 \<and> (\<forall>t. m ''message'' \<noteq> Some (JString t))
                 \<and> m ''error'' = Some (JString s) \<longrightarrow> ?msg = s"
    by (auto simp add: newHttpError_def Let_def split: option.splits json.splits)
  have m3: "resp_Body resp = [] \<or> json_Unmarshal_object rt (resp_Body resp) = None
              \<or> (\<exists>m. json_Unmarshal_object rt (resp_Body resp) = Some m
                    \<and> (\<forall>t. m ''message'' \<noteq> Some (JString t))
                    \<and> (\<forall>t. m ''error'' \<noteq> Some (JString t)))
              \<longrightarrow> ?msg = resp_Body resp"
    by (auto simp add: newHttpError_def Let_def split: option.splits json.splits)
  have h: "IsHttpError (Some ?e)"
    by (subst e) (simp add: IsHttpError_def)
  have g: "GetHttpStatusCode (Some ?e) = (StatusCode resp, True)"
    by (subst e) (simp add: GetHttpStatusCode_def AsHttpError_def)
  have n: "IsNotFound (Some ?e) = (StatusCode resp = 404)"
    by (simp add: IsNotFound_def g)
  show ?thesis
    unfolding Let_def
    by (intro conjI r e m1 m2 m3 h g n)
qed

text \<open>
  A 404 whose body is the object with \<open>message\<close> \<open>not found\<close>: the error is a not-found
  \<open>HttpError\<close> with the message \<open>not found\<close>.
\<close>

theorem http_error_from_status_witness:
  "StatusCode not_found_response = 404
   \<and> request (example_runtime not_found_response not_found_decode)
         (NewClient ''https://api.example.com'') MethodGET (EndpointChainhook ''u1'') None
         (Unmarshal_Chainhook (example_runtime not_found_response not_found_decode))
         (Some Chainhook_zero) []
       = (Some (HttpError 404 ''https://api.example.com/chainhooks/me/u1'' MethodGET
                  [(''Content-Type'', [''application/json''])] ''not found''
                  not_found_body None),
          Some Chainhook_zero,
          [prepare_request (example_runtime not_found_response not_found_decode)
             (NewClient ''https://api.example.com'') MethodGET
             ''https://api.example.com/chainhooks/me/u1'' None])
   \<and> IsNotFound (Some (HttpError 404 ''https://api.example.com/chainhooks/me/u1'' MethodGET
                  [(''Content-Type'', [''application/json''])] ''not found''
                  not_found_body None))
   \<and> IsHttpError (Some (HttpError 404 ''https://api.example.com/chainhooks/me/u1'' MethodGET
                  [(''Content-Type'', [''application/json''])] ''not found''
                  not_found_body None))"
proof -
  let ?rt = "example_runtime not_found_response not_found_decode"
  let ?c = "NewClient ''https://api.example.com''"
  let ?url = "''https://api.example.com/chainhooks/me/u1''"
  let ?req = "prepare_request ?rt ?c MethodGET ?url None"
  let ?e = "newHttpError ?rt not_found_response ?req"
  have b: "baseURL ?c = ''https://api.example.com''"
    by (simp add: NewClient_def NewClientWithConfig_def ClientConfig_zero_def TrimSuffix_def
        HasSuffix_def Let_def)
  have h1: "(case None of None \<Rightarrow> Inr None
             | Some b \<Rightarrow> map_sum id Some (json_Marshal ?rt b)) = Inr None"
    by simp
  have h2: "http_NewRequest ?rt MethodGET (baseURL ?c @ EndpointChainhook ''u1'') = Inr ?url"
    by (simp add: b example_runtime_def EndpointChainhook_def)
  have h3: "http_Do ?rt ?req = Inr not_found_response"
    by (simp add: example_runtime_def)
  have h4: "StatusCode not_found_response = 404"
    by (simp add: not_found_response_def)
  have h5: "StatusCode not_found_response \<ge> 400"
    by (simp add: not_found_response_def)
  have n: "resp_Body not_found_response \<noteq> []"
    by (simp add: not_found_response_def not_found_body_def)
  have d: "json_Unmarshal_object ?rt (resp_Body not_found_response)
             = Some [''message'' \<mapsto> JString ''not found'']"
    by (simp add: example_runtime_def not_found_response_def not_found_decode_def)
  note T = http_error_from_status
             [OF h1 h2 h3 h5, of "Unmarshal_Chainhook ?rt" "Some Chainhook_zero" "[]",
              unfolded Let_def]
  have r: "request ?rt ?c MethodGET (EndpointChainhook ''u1'') None (Unmarshal_Chainhook ?rt)
             (Some Chainhook_zero) [] = (Some ?e, Some Chainhook_zero, [] @ [?req])"
    by (rule T [THEN conjunct1])
  have e: "?e = HttpError (StatusCode not_found_response) ?url MethodGET
                  (resp_Header not_found_response) (error_Body ?e)
                  (resp_Body not_found_response) None"
    by (rule T [THEN conjunct2, THEN conjunct1])
  have m: "resp_Body not_found_response \<noteq> []
             \<and> json_Unmarshal_object ?rt (resp_Body not_found_response)
                 = Some [''message'' \<mapsto> JString ''not found'']
             \<and> [''message'' \<mapsto> JString ''not found''] ''message'' = Some (JString ''not found'')
           \<longrightarrow> error_Body ?e = ''not found''"
    by (rule T [THEN conjunct2, THEN conjunct2, THEN conjunct1, THEN spec, THEN spec])
  have msg: "error_Body ?e = ''not found''"
    using m n d by simp
  have e': "?e = HttpError 404 ''https://api.example.com/chainhooks/me/u1'' MethodGET
                  [(''Content-Type'', [''application/json''])] ''not found''
                  not_found_body None"
  proof -
    have hd: "resp_Header not_found_response = [(''Content-Type'', [''application/json''])]"
      by (simp add: not_found_response_def)
    have bd: "resp_Body not_found_response = not_found_body"
      by (simp add: not_found_response_def)
    have "HttpError (StatusCode not_found_response) ?url MethodGET
            (resp_Header not_found_response) (error_Body ?e)
            (resp_Body not_found_response) None
          = HttpError 404 ''https://api.example.com/chainhooks/me/u1'' MethodGET
              [(''Content-Type'', [''application/json''])] ''not found'' not_found_body None"
      by (simp only: msg h4 hd bd)
    with e show ?thesis by (rule trans)
  qed
  have nf: "IsNotFound (Some ?e)"
    using T [THEN conjunct2, THEN conjunct2, THEN conjunct2, THEN conjunct2, THEN conjunct2,
             THEN conjunct2, THEN conjunct2] h4 by simp
  have ih: "IsHttpError (Some ?e)"
    by (rule T [THEN conjunct2, THEN conjunct2, THEN conjunct2, THEN conjunct2, THEN conjunct2,
                THEN conjunct1])
  show ?thesis
    using r nf ih h4 unfolding e' by simp
qed

end
